theory Spec2Isabelle
  imports Complex_Main
begin

section \<open>The Local Mapping thread of SD-SLAM (src/LocalMapping.cc)\<close>

text \<open>
  A shallow embedding of \<^verbatim>\<open>LocalMapping.cc\<close>. Objects reached through pointers
  (\<^verbatim>\<open>KeyFrame*\<close>, \<^verbatim>\<open>MapPoint*\<close>) live in an explicit store and are
  named by their addresses. \<^verbatim>\<open>float\<close> and \<^verbatim>\<open>double\<close> values are
  read as real numbers, except in the reprojection tests of the triangulation, whose
  arithmetic is that of the machine. Each member function becomes a function from the
  state of the mapper to its new state.
\<close>

subsection \<open>The store: key frames, map points and the map\<close>

type_synonym KeyFramePtr = nat
type_synonym MapPointPtr = nat

type_synonym vec3 = "real \<times> real \<times> real"
type_synonym vec4 = "real \<times> real \<times> real \<times> real"
type_synonym mat3 = "vec3 \<times> vec3 \<times> vec3"

text \<open>An undistorted key point (\<^verbatim>\<open>cv::KeyPoint\<close>): its pixel and its pyramid level.\<close>

record KeyPoint =
  pt_x :: real
  pt_y :: real
  octave :: int

text \<open>
  The pose, the intrinsics and the scale pyramid of a key frame: the rows of the rotation
  \<^verbatim>\<open>GetRotation()\<close>, the translation, the camera centre, the calibration, the
  stereo baseline \<^verbatim>\<open>mb\<close> and \<^verbatim>\<open>mbf\<close>, and the per-level tables.
\<close>

record Camera =
  Rcw :: mat3
  tcw :: vec3
  Ow :: vec3
  fx :: real
  fy :: real
  cx :: real
  cy :: real
  invfx :: real
  invfy :: real
  mb :: real
  mbf :: real
  mfScaleFactor :: real
  mvScaleFactors :: "real list"
  mvLevelSigma2 :: "real list"

text \<open>
  The members of \<^verbatim>\<open>KeyFrame\<close> that \<^verbatim>\<open>LocalMapping.cc\<close> reads: the
  identity, the slot vector \<^verbatim>\<open>mvpMapPoints\<close> (what
  \<^verbatim>\<open>GetMapPointMatches\<close> returns; a null pointer is \<open>None\<close>), the undistorted
  key points, the right-image coordinate and the depth of every feature (negative when
  there is none), the close-point threshold, the bad flag, the fusion marker, the
  covisible key frames (best first) and the camera.
\<close>

record KeyFrame =
  mnId :: nat
  mvpMapPoints :: "MapPointPtr option list"
  mvKeysUn :: "KeyPoint list"
  mvuRight :: "real list"
  mvDepth :: "real list"
  mThDepth :: real
  kf_mbBad :: bool
  mnFuseTargetForKF :: nat
  mvpOrderedConnectedKeyFrames :: "KeyFramePtr list"
  camera :: Camera

text \<open>
  The members of \<^verbatim>\<open>MapPoint\<close>: the observations (\<^verbatim>\<open>std::map<KeyFrame*, size_t>\<close>,
  kept as an association list with one entry per key frame), the bad flag, the id of the
  first key frame, the counters behind the found ratio and the fusion marker.
\<close>

record MapPoint =
  mObservations :: "(KeyFramePtr \<times> nat) list"
  mp_mbBad :: bool
  mnFirstKFid :: nat
  mnFound :: nat
  mnVisible :: nat
  mnFuseCandidateForKF :: nat

text \<open>
  The store holds every key frame and map point by address, the two sets of the
  \<^verbatim>\<open>Map\<close> object (\<^verbatim>\<open>mpMap\<close>), and the next free address for
  \<^verbatim>\<open>new MapPoint\<close>.
\<close>

record Store =
  kfs :: "KeyFramePtr \<Rightarrow> KeyFrame"
  mps :: "MapPointPtr \<Rightarrow> MapPoint"
  mspKeyFrames :: "KeyFramePtr list"
  mspMapPoints :: "MapPointPtr list"
  next_MapPoint :: MapPointPtr

subsection \<open>The mapper object\<close>

text \<open>
  Calls that leave \<^verbatim>\<open>LocalMapping.cc\<close> (the matcher, the optimizer, the loop
  closer, \<^verbatim>\<open>delete\<close>) are recorded in the order they are made.
\<close>

datatype call =
    Call_SearchForTriangulation KeyFramePtr KeyFramePtr
  | Call_Fuse KeyFramePtr
  | Call_LocalBundleAdjustment KeyFramePtr
  | Call_LoopCloser_InsertKeyFrame KeyFramePtr
  | Call_delete KeyFramePtr

text \<open>
  The public member functions that the tracker and the loop closer call from their own
  threads while \<^verbatim>\<open>Run\<close> is executing.
\<close>

datatype request =
    Req_InsertKeyFrame KeyFramePtr
  | Req_RequestStop
  | Req_SetNotStop bool
  | Req_Release
  | Req_InterruptBA
  | Req_RequestReset
  | Req_RequestFinish

text \<open>
  The data members of \<^verbatim>\<open>LocalMapping\<close>, the store they point into, the calls
  made so far, and \<open>others\<close>: what the other threads will call on this object, grouped
  by the next point at which the mapper takes one of its mutexes.
\<close>

record LocalMapping =
  mbMonocular :: bool
  mbResetRequested :: bool
  mbFinishRequested :: bool
  mbFinished :: bool
  mbAbortBA :: bool
  mbStopped :: bool
  mbStopRequested :: bool
  mbNotStop :: bool
  mbAcceptKeyFrames :: bool
  mpLoopCloser :: bool
  mlNewKeyFrames :: "KeyFramePtr list"
  mlpRecentAddedMapPoints :: "MapPointPtr list"
  mpCurrentKeyFrame :: KeyFramePtr
  store :: Store
  calls :: "call list"
  others :: "request list list"

subsection \<open>The control surface\<close>

definition InsertKeyFrame :: "KeyFramePtr \<Rightarrow> LocalMapping \<Rightarrow> LocalMapping" where
  "InsertKeyFrame pKF s = s\<lparr>mlNewKeyFrames := mlNewKeyFrames s @ [pKF], mbAbortBA := True\<rparr>"

definition CheckNewKeyFrames :: "LocalMapping \<Rightarrow> bool" where
  "CheckNewKeyFrames s = (mlNewKeyFrames s \<noteq> [])"

definition RequestStop :: "LocalMapping \<Rightarrow> LocalMapping" where
  "RequestStop s = s\<lparr>mbStopRequested := True, mbAbortBA := True\<rparr>"

text \<open>\<^verbatim>\<open>Stop\<close> returns its result together with the new state.\<close>

definition Stop :: "LocalMapping \<Rightarrow> bool \<times> LocalMapping" where
  "Stop s = (if mbStopRequested s \<and> \<not> mbNotStop s
             then (True, s\<lparr>mbStopped := True\<rparr>)
             else (False, s))"

definition isStopped :: "LocalMapping \<Rightarrow> bool" where
  "isStopped s = mbStopped s"

definition stopRequested :: "LocalMapping \<Rightarrow> bool" where
  "stopRequested s = mbStopRequested s"

text \<open>
  \<^verbatim>\<open>Release\<close> deletes every pending key frame before it clears the queue; the
  deletions are recorded as calls.
\<close>

definition Release :: "LocalMapping \<Rightarrow> LocalMapping" where
  "Release s = (if mbFinished s then s
                else s\<lparr>mbStopped := False, mbStopRequested := False,
                       calls := calls s @ map Call_delete (mlNewKeyFrames s),
                       mlNewKeyFrames := []\<rparr>)"

definition AcceptKeyFrames :: "LocalMapping \<Rightarrow> bool" where
  "AcceptKeyFrames s = mbAcceptKeyFrames s"

definition SetAcceptKeyFrames :: "bool \<Rightarrow> LocalMapping \<Rightarrow> LocalMapping" where
  "SetAcceptKeyFrames flag s = s\<lparr>mbAcceptKeyFrames := flag\<rparr>"

definition SetNotStop :: "bool \<Rightarrow> LocalMapping \<Rightarrow> bool \<times> LocalMapping" where
  "SetNotStop flag s = (if flag \<and> mbStopped s then (False, s)
                        else (True, s\<lparr>mbNotStop := flag\<rparr>))"

definition InterruptBA :: "LocalMapping \<Rightarrow> LocalMapping" where
  "InterruptBA s = s\<lparr>mbAbortBA := True\<rparr>"

text \<open>
  \<^verbatim>\<open>RequestReset\<close> sets the flag and then polls until the mapper has cleared it;
  the polling changes nothing, so the request is the assignment.
\<close>

definition RequestReset :: "LocalMapping \<Rightarrow> LocalMapping" where
  "RequestReset s = s\<lparr>mbResetRequested := True\<rparr>"

definition ResetIfRequested :: "LocalMapping \<Rightarrow> LocalMapping" where
  "ResetIfRequested s = (if mbResetRequested s
                         then s\<lparr>mlNewKeyFrames := [], mlpRecentAddedMapPoints := [],
                                mbResetRequested := False\<rparr>
                         else s)"

definition RequestFinish :: "LocalMapping \<Rightarrow> LocalMapping" where
  "RequestFinish s = s\<lparr>mbFinishRequested := True\<rparr>"

definition CheckFinish :: "LocalMapping \<Rightarrow> bool" where
  "CheckFinish s = mbFinishRequested s"

definition SetFinish :: "LocalMapping \<Rightarrow> LocalMapping" where
  "SetFinish s = s\<lparr>mbFinished := True, mbStopped := True\<rparr>"

definition isFinished :: "LocalMapping \<Rightarrow> bool" where
  "isFinished s = mbFinished s"

subsection \<open>Map points, key frames and the map: the operations the mapper calls\<close>

text \<open>
  \<^verbatim>\<open>MapPoint.cc\<close>, \<^verbatim>\<open>KeyFrame.cc\<close> and \<^verbatim>\<open>Map.cc\<close> are not among the
  sources; the operations below follow the specification's data model.
\<close>

text \<open>Modelled from the spec: \<^verbatim>\<open>MapPoint::isBad\<close> reads the bad-flag tombstone.\<close>

definition MapPoint_isBad :: "Store \<Rightarrow> MapPointPtr \<Rightarrow> bool" where
  "MapPoint_isBad st pMP = mp_mbBad (mps st pMP)"

text \<open>
  Modelled from the spec: \<^verbatim>\<open>MapPoint::IsInKeyFrame\<close> holds when the observations
  (key frame to slot index) have an entry for the key frame.
\<close>

definition IsInKeyFrame :: "Store \<Rightarrow> MapPointPtr \<Rightarrow> KeyFramePtr \<Rightarrow> bool" where
  "IsInKeyFrame st pMP pKF = (map_of (mObservations (mps st pMP)) pKF \<noteq> None)"

text \<open>
  Modelled from the spec: \<^verbatim>\<open>MapPoint::AddObservation\<close> adds the observation
  (key frame, slot); observations are unique per key frame, so a key frame that already
  observes the point keeps the entry it has.
\<close>

definition AddObservation :: "MapPointPtr \<Rightarrow> KeyFramePtr \<Rightarrow> nat \<Rightarrow> Store \<Rightarrow> Store" where
  "AddObservation pMP pKF idx st =
     (if IsInKeyFrame st pMP pKF then st
      else st\<lparr>mps := (mps st)(pMP := (mps st pMP)
                 \<lparr>mObservations := mObservations (mps st pMP) @ [(pKF, idx)]\<rparr>)\<rparr>)"

text \<open>Modelled from the spec: \<^verbatim>\<open>MapPoint::SetBadFlag\<close> marks the point bad.\<close>

definition MapPoint_SetBadFlag :: "MapPointPtr \<Rightarrow> Store \<Rightarrow> Store" where
  "MapPoint_SetBadFlag pMP st = st\<lparr>mps := (mps st)(pMP := (mps st pMP)\<lparr>mp_mbBad := True\<rparr>)\<rparr>"

text \<open>
  Modelled from the spec: \<^verbatim>\<open>MapPoint::GetFoundRatio\<close> is the ratio of the times the
  point was matched to the times it was predicted visible.
\<close>

definition GetFoundRatio :: "Store \<Rightarrow> MapPointPtr \<Rightarrow> real" where
  "GetFoundRatio st pMP = real (mnFound (mps st pMP)) / real (mnVisible (mps st pMP))"

text \<open>
  Modelled from the spec: \<^verbatim>\<open>MapPoint::Observations\<close> is the observation count of
  the point.
\<close>

definition Observations :: "Store \<Rightarrow> MapPointPtr \<Rightarrow> int" where
  "Observations st pMP = int (length (mObservations (mps st pMP)))"

definition GetObservations :: "Store \<Rightarrow> MapPointPtr \<Rightarrow> (KeyFramePtr \<times> nat) list" where
  "GetObservations st pMP = mObservations (mps st pMP)"

text \<open>
  Modelled from the spec: \<^verbatim>\<open>new MapPoint(x3D, pRefKF, pMap)\<close> takes the next free
  address; the point has no observation yet, is not bad, and its first key frame is the
  reference key frame. The position is not part of the store.
\<close>

definition new_MapPoint :: "KeyFramePtr \<Rightarrow> Store \<Rightarrow> MapPointPtr \<times> Store" where
  "new_MapPoint pRefKF st =
     (next_MapPoint st,
      st\<lparr>mps := (mps st)(next_MapPoint st :=
             \<lparr>mObservations = [], mp_mbBad = False, mnFirstKFid = mnId (kfs st pRefKF),
              mnFound = 1, mnVisible = 1, mnFuseCandidateForKF = 0\<rparr>),
         next_MapPoint := Suc (next_MapPoint st)\<rparr>)"

definition GetMapPointMatches :: "Store \<Rightarrow> KeyFramePtr \<Rightarrow> MapPointPtr option list" where
  "GetMapPointMatches st pKF = mvpMapPoints (kfs st pKF)"

text \<open>
  Modelled from the spec: \<^verbatim>\<open>KeyFrame::AddMapPoint\<close> stores the point in the slot of
  the key frame.
\<close>

definition KeyFrame_AddMapPoint :: "KeyFramePtr \<Rightarrow> MapPointPtr \<Rightarrow> nat \<Rightarrow> Store \<Rightarrow> Store" where
  "KeyFrame_AddMapPoint pKF pMP idx st =
     st\<lparr>kfs := (kfs st)(pKF := (kfs st pKF)
            \<lparr>mvpMapPoints := (mvpMapPoints (kfs st pKF))[idx := Some pMP]\<rparr>)\<rparr>"

definition KeyFrame_isBad :: "Store \<Rightarrow> KeyFramePtr \<Rightarrow> bool" where
  "KeyFrame_isBad st pKF = kf_mbBad (kfs st pKF)"

text \<open>
  Modelled from the spec: \<^verbatim>\<open>MapPoint::EraseObservation\<close>, the step by which a key
  frame that is marked bad detaches its observation from one of its map points.
\<close>

definition EraseObservation :: "KeyFramePtr \<Rightarrow> MapPointPtr \<Rightarrow> Store \<Rightarrow> Store" where
  "EraseObservation pKF pMP st =
     st\<lparr>mps := (mps st)(pMP := (mps st pMP)
            \<lparr>mObservations := filter (\<lambda>e. fst e \<noteq> pKF) (mObservations (mps st pMP))\<rparr>)\<rparr>"

fun detach_observations :: "KeyFramePtr \<Rightarrow> MapPointPtr option list \<Rightarrow> Store \<Rightarrow> Store" where
  "detach_observations pKF [] st = st"
| "detach_observations pKF (None # vp) st = detach_observations pKF vp st"
| "detach_observations pKF (Some pMP # vp) st =
     detach_observations pKF vp (EraseObservation pKF pMP st)"

text \<open>
  Modelled from the spec: \<^verbatim>\<open>KeyFrame::SetBadFlag\<close> removes the key frame from the
  iteration of the map, detaches its observations from all its map points, and keeps the
  object as a tombstone that reports bad.
\<close>

definition KeyFrame_SetBadFlag :: "KeyFramePtr \<Rightarrow> Store \<Rightarrow> Store" where
  "KeyFrame_SetBadFlag pKF st =
     (let st1 = detach_observations pKF (mvpMapPoints (kfs st pKF)) st
      in st1\<lparr>kfs := (kfs st1)(pKF := (kfs st1 pKF)\<lparr>kf_mbBad := True\<rparr>),
             mspKeyFrames := removeAll pKF (mspKeyFrames st1)\<rparr>)"

text \<open>
  Modelled from the spec: the covisible key frames of a key frame, best first;
  \<^verbatim>\<open>GetBestCovisibilityKeyFrames(N)\<close> returns at most the first \<open>N\<close> of them.
\<close>

definition GetVectorCovisibleKeyFrames :: "Store \<Rightarrow> KeyFramePtr \<Rightarrow> KeyFramePtr list" where
  "GetVectorCovisibleKeyFrames st pKF = mvpOrderedConnectedKeyFrames (kfs st pKF)"

definition GetBestCovisibilityKeyFrames :: "Store \<Rightarrow> KeyFramePtr \<Rightarrow> nat \<Rightarrow> KeyFramePtr list" where
  "GetBestCovisibilityKeyFrames st pKF N = take N (mvpOrderedConnectedKeyFrames (kfs st pKF))"

text \<open>Modelled from the spec: the map owns the set of key frames and the set of map points.\<close>

definition Map_AddKeyFrame :: "KeyFramePtr \<Rightarrow> Store \<Rightarrow> Store" where
  "Map_AddKeyFrame pKF st = st\<lparr>mspKeyFrames := List.insert pKF (mspKeyFrames st)\<rparr>"

definition Map_AddMapPoint :: "MapPointPtr \<Rightarrow> Store \<Rightarrow> Store" where
  "Map_AddMapPoint pMP st = st\<lparr>mspMapPoints := List.insert pMP (mspMapPoints st)\<rparr>"

definition KeyFramesInMap :: "Store \<Rightarrow> nat" where
  "KeyFramesInMap st = length (mspKeyFrames st)"

subsection \<open>Floating point\<close>

text \<open>
  \<^verbatim>\<open>float\<close> and \<^verbatim>\<open>double\<close> are the IEEE 754 formats binary32 and binary64.
  Where \<^verbatim>\<open>LocalMapping.cc\<close> compares a sum of rounded products with a threshold
  (the reprojection tests, lines 336 to 381), every operation is rounded as the machine
  rounds it: each one by itself (no fused multiplication and addition, no excess
  precision), to the nearest number of the format, ties to the even one, with overflow
  to an infinity. A value is a real number, an infinity or not a number. The sign of a
  zero is not kept: only a division by it could tell, and these lines divide by
  \<^verbatim>\<open>z1\<close> and \<^verbatim>\<open>z2\<close> only, after the tests \<^verbatim>\<open>z1 <= 0\<close> and
  \<^verbatim>\<open>z2 <= 0\<close>.
\<close>

datatype fp = Finite real | PlusInf | MinusInf | NaN

record format =
  precision :: nat
  emin :: int
  emax :: int

definition binary32 :: format where
  "binary32 = \<lparr>precision = 24, emin = - 126, emax = 127\<rparr>"

definition binary64 :: format where
  "binary64 = \<lparr>precision = 53, emin = - 1022, emax = 1023\<rparr>"

definition pow2 :: "int \<Rightarrow> real" where
  "pow2 k = (if 0 \<le> k then 2 ^ nat k else 1 / 2 ^ nat (- k))"

text \<open>The nearest integer, the even one of two that are equally near.\<close>

definition rne :: "real \<Rightarrow> int" where
  "rne x = (let n = \<lfloor>x\<rfloor>
            in if x - of_int n < 1 / 2 then n
               else if 1 / 2 < x - of_int n then n + 1
               else if even n then n else n + 1)"

text \<open>The exponent of the binade of \<open>x\<close>, not below the smallest exponent of the format.\<close>

definition exponent :: "format \<Rightarrow> real \<Rightarrow> int" where
  "exponent f x = max (emin f) \<lfloor>log 2 \<bar>x\<bar>\<rfloor>"

text \<open>The largest finite number of the format.\<close>

definition largest :: "format \<Rightarrow> real" where
  "largest f = (2 - pow2 (1 - int (precision f))) * pow2 (emax f)"

text \<open>
  Rounding a real number into the format: to a multiple of the unit in the last place of
  its binade, and to an infinity when the rounded number is beyond the largest one.
\<close>

definition round_to :: "format \<Rightarrow> real \<Rightarrow> fp" where
  "round_to f x =
     (if x = 0 then Finite 0
      else
        (let ulp = pow2 (exponent f x - int (precision f) + 1);
             r = of_int (rne (x / ulp)) * ulp
         in if largest f < \<bar>r\<bar> then (if 0 < x then PlusInf else MinusInf) else Finite r))"

fun fp_neg :: "fp \<Rightarrow> fp" where
  "fp_neg (Finite x) = Finite (- x)"
| "fp_neg PlusInf = MinusInf"
| "fp_neg MinusInf = PlusInf"
| "fp_neg NaN = NaN"

fun fp_add :: "format \<Rightarrow> fp \<Rightarrow> fp \<Rightarrow> fp" where
  "fp_add f (Finite x) (Finite y) = round_to f (x + y)"
| "fp_add f (Finite x) PlusInf = PlusInf"
| "fp_add f (Finite x) MinusInf = MinusInf"
| "fp_add f PlusInf (Finite y) = PlusInf"
| "fp_add f PlusInf PlusInf = PlusInf"
| "fp_add f PlusInf MinusInf = NaN"
| "fp_add f MinusInf (Finite y) = MinusInf"
| "fp_add f MinusInf MinusInf = MinusInf"
| "fp_add f MinusInf PlusInf = NaN"
| "fp_add f NaN b = NaN"
| "fp_add f a NaN = NaN"

definition fp_sub :: "format \<Rightarrow> fp \<Rightarrow> fp \<Rightarrow> fp" where
  "fp_sub f a b = fp_add f a (fp_neg b)"

definition fp_inf :: "bool \<Rightarrow> fp" where
  "fp_inf positive = (if positive then PlusInf else MinusInf)"

fun fp_mul :: "format \<Rightarrow> fp \<Rightarrow> fp \<Rightarrow> fp" where
  "fp_mul f (Finite x) (Finite y) = round_to f (x * y)"
| "fp_mul f (Finite x) PlusInf = (if x = 0 then NaN else fp_inf (0 < x))"
| "fp_mul f (Finite x) MinusInf = (if x = 0 then NaN else fp_inf (x < 0))"
| "fp_mul f PlusInf (Finite y) = (if y = 0 then NaN else fp_inf (0 < y))"
| "fp_mul f MinusInf (Finite y) = (if y = 0 then NaN else fp_inf (y < 0))"
| "fp_mul f PlusInf PlusInf = PlusInf"
| "fp_mul f PlusInf MinusInf = MinusInf"
| "fp_mul f MinusInf PlusInf = MinusInf"
| "fp_mul f MinusInf MinusInf = PlusInf"
| "fp_mul f NaN b = NaN"
| "fp_mul f a NaN = NaN"

fun fp_div :: "format \<Rightarrow> fp \<Rightarrow> fp \<Rightarrow> fp" where
  "fp_div f (Finite x) (Finite y) =
     (if y = 0 then (if x = 0 then NaN else fp_inf (0 < x)) else round_to f (x / y))"
| "fp_div f (Finite x) PlusInf = Finite 0"
| "fp_div f (Finite x) MinusInf = Finite 0"
| "fp_div f PlusInf (Finite y) = fp_inf (0 \<le> y)"
| "fp_div f MinusInf (Finite y) = fp_inf (y < 0)"
| "fp_div f PlusInf PlusInf = NaN"
| "fp_div f PlusInf MinusInf = NaN"
| "fp_div f MinusInf PlusInf = NaN"
| "fp_div f MinusInf MinusInf = NaN"
| "fp_div f NaN b = NaN"
| "fp_div f a NaN = NaN"

text \<open>The comparisons; every comparison with not-a-number is false.\<close>

fun fp_less :: "fp \<Rightarrow> fp \<Rightarrow> bool" where
  "fp_less (Finite x) (Finite y) = (x < y)"
| "fp_less (Finite x) PlusInf = True"
| "fp_less MinusInf (Finite y) = True"
| "fp_less MinusInf PlusInf = True"
| "fp_less a b = False"

fun fp_le :: "fp \<Rightarrow> fp \<Rightarrow> bool" where
  "fp_le NaN b = False"
| "fp_le a NaN = False"
| "fp_le a b = (a = b \<or> fp_less a b)"

definition fp_gt :: "fp \<Rightarrow> fp \<Rightarrow> bool" where
  "fp_gt a b = fp_less b a"

text \<open>
  The conversion of a \<^verbatim>\<open>double\<close> to \<^verbatim>\<open>float\<close> rounds; the conversion of a
  \<^verbatim>\<open>float\<close> to \<^verbatim>\<open>double\<close> changes nothing.
\<close>

fun to_float :: "fp \<Rightarrow> fp" where
  "to_float (Finite x) = round_to binary32 x"
| "to_float a = a"

abbreviation add32 :: "fp \<Rightarrow> fp \<Rightarrow> fp" where "add32 \<equiv> fp_add binary32"
abbreviation sub32 :: "fp \<Rightarrow> fp \<Rightarrow> fp" where "sub32 \<equiv> fp_sub binary32"
abbreviation mul32 :: "fp \<Rightarrow> fp \<Rightarrow> fp" where "mul32 \<equiv> fp_mul binary32"
abbreviation mul64 :: "fp \<Rightarrow> fp \<Rightarrow> fp" where "mul64 \<equiv> fp_mul binary64"
abbreviation div64 :: "fp \<Rightarrow> fp \<Rightarrow> fp" where "div64 \<equiv> fp_div binary64"

subsection \<open>The collaborators\<close>

text \<open>
  What \<^verbatim>\<open>LocalMapping.cc\<close> calls and neither defines nor constrains is a parameter
  of the model: the matcher (\<^verbatim>\<open>ORBmatcher::SearchForTriangulation\<close>, which returns
  the matched index pairs, and \<^verbatim>\<open>ORBmatcher::Fuse\<close>), the optimizer, the singular
  value decomposition (the last row of \<^verbatim>\<open>vt\<close>), and the key frame's
  \<^verbatim>\<open>UnprojectStereo\<close>, \<^verbatim>\<open>ComputeSceneMedianDepth\<close> and
  \<^verbatim>\<open>UpdateConnections\<close> (which yields the new covisibility list of every key
  frame). The matcher and the optimizer act on the store only.
  \<^verbatim>\<open>CameraCoordinates\<close> stands for Eigen's products of lines 328 to 339 and 362
  to 363: \<^verbatim>\<open>Rcw.row(i).dot(x3Dt) + tcw(i)\<close> for the rows 0, 1 and 2, evaluated
  in \<^verbatim>\<open>double\<close> in an order that is Eigen's, each stored in a \<^verbatim>\<open>float\<close>.
\<close>

record Collaborators =
  SearchForTriangulation :: "Store \<Rightarrow> KeyFramePtr \<Rightarrow> KeyFramePtr \<Rightarrow> (nat \<times> nat) list"
  Fuse :: "KeyFramePtr \<Rightarrow> MapPointPtr option list \<Rightarrow> Store \<Rightarrow> Store"
  LocalBundleAdjustment :: "KeyFramePtr \<Rightarrow> Store \<Rightarrow> Store"
  SVD_vt_row3 :: "vec4 \<times> vec4 \<times> vec4 \<times> vec4 \<Rightarrow> vec4"
  UnprojectStereo :: "KeyFrame \<Rightarrow> nat \<Rightarrow> vec3"
  ComputeSceneMedianDepth :: "Store \<Rightarrow> KeyFramePtr \<Rightarrow> real"
  UpdateConnections :: "Store \<Rightarrow> KeyFramePtr \<Rightarrow> KeyFramePtr \<Rightarrow> KeyFramePtr list"
  CameraCoordinates :: "Camera \<Rightarrow> vec3 \<Rightarrow> fp \<times> fp \<times> fp"

definition KeyFrame_UpdateConnections :: "Collaborators \<Rightarrow> KeyFramePtr \<Rightarrow> Store \<Rightarrow> Store" where
  "KeyFrame_UpdateConnections E pKF st =
     st\<lparr>kfs := (\<lambda>k. (kfs st k)\<lparr>mvpOrderedConnectedKeyFrames := UpdateConnections E st pKF k\<rparr>)\<rparr>"

subsection \<open>Map point culling\<close>

text \<open>
  The cast \<^verbatim>\<open>(int)\<close> of an \<^verbatim>\<open>unsigned long\<close>: the low 32 bits, read as a
  two's-complement number.
\<close>

definition int_cast :: "nat \<Rightarrow> int" where
  "int_cast n = (if n mod 2 ^ 32 < 2 ^ 31 then int (n mod 2 ^ 32)
                 else int (n mod 2 ^ 32) - 2 ^ 32)"

text \<open>
  The \<^verbatim>\<open>while\<close> loop of \<^verbatim>\<open>MapPointCulling\<close> over the recent-added list:
  the result is the list that is left and the store. \<^verbatim>\<open>erase\<close> drops the
  element; \<^verbatim>\<open>lit++\<close> keeps it.
\<close>

fun MapPointCulling_loop ::
  "nat \<Rightarrow> int \<Rightarrow> MapPointPtr list \<Rightarrow> Store \<Rightarrow> MapPointPtr list \<times> Store" where
  "MapPointCulling_loop nCurrentKFid cnThObs [] st = ([], st)"
| "MapPointCulling_loop nCurrentKFid cnThObs (pMP # lit) st =
     (if MapPoint_isBad st pMP then
        MapPointCulling_loop nCurrentKFid cnThObs lit st
      else if GetFoundRatio st pMP < 0.25 then
        MapPointCulling_loop nCurrentKFid cnThObs lit (MapPoint_SetBadFlag pMP st)
      else if int_cast nCurrentKFid - int_cast (mnFirstKFid (mps st pMP)) \<ge> 2
              \<and> Observations st pMP \<le> cnThObs then
        MapPointCulling_loop nCurrentKFid cnThObs lit (MapPoint_SetBadFlag pMP st)
      else if int_cast nCurrentKFid - int_cast (mnFirstKFid (mps st pMP)) \<ge> 3 then
        MapPointCulling_loop nCurrentKFid cnThObs lit st
      else
        (case MapPointCulling_loop nCurrentKFid cnThObs lit st of
           (kept, st') \<Rightarrow> (pMP # kept, st')))"

definition MapPointCulling :: "LocalMapping \<Rightarrow> LocalMapping" where
  "MapPointCulling s =
     (let nCurrentKFid = mnId (kfs (store s) (mpCurrentKeyFrame s));
          nThObs = (if mbMonocular s then 2 else 3);
          cnThObs = nThObs
      in case MapPointCulling_loop nCurrentKFid cnThObs (mlpRecentAddedMapPoints s) (store s) of
           (kept, st') \<Rightarrow> s\<lparr>mlpRecentAddedMapPoints := kept, store := st'\<rparr>)"

subsection \<open>Key frame culling\<close>

text \<open>
  The innermost loop of \<^verbatim>\<open>KeyFrameCulling\<close> walks the observations of a map
  point and counts, up to \<^verbatim>\<open>thObs\<close>, the key frames other than \<^verbatim>\<open>pKF\<close>
  that see the point at a level not coarser than \<^verbatim>\<open>scaleLevel + 1\<close>.
\<close>

fun KeyFrameCulling_observations ::
  "Store \<Rightarrow> KeyFramePtr \<Rightarrow> int \<Rightarrow> int \<Rightarrow> (KeyFramePtr \<times> nat) list \<Rightarrow> int \<Rightarrow> int" where
  "KeyFrameCulling_observations st pKF scaleLevel thObs [] nObs = nObs"
| "KeyFrameCulling_observations st pKF scaleLevel thObs ((pKFi, idx) # mit) nObs =
     (if pKFi = pKF then
        KeyFrameCulling_observations st pKF scaleLevel thObs mit nObs
      else if octave (mvKeysUn (kfs st pKFi) ! idx) \<le> scaleLevel + 1 then
        (if nObs + 1 \<ge> thObs then nObs + 1
         else KeyFrameCulling_observations st pKF scaleLevel thObs mit (nObs + 1))
      else KeyFrameCulling_observations st pKF scaleLevel thObs mit nObs)"

text \<open>
  The loop over the slots of \<^verbatim>\<open>pKF\<close>, from slot \<open>i\<close> on; the pair is
  \<^verbatim>\<open>(nRedundantObservations, nMPs)\<close>.
\<close>

fun KeyFrameCulling_slots ::
  "bool \<Rightarrow> Store \<Rightarrow> KeyFramePtr \<Rightarrow> nat \<Rightarrow> MapPointPtr option list \<Rightarrow> int \<times> int \<Rightarrow> int \<times> int" where
  "KeyFrameCulling_slots bMonocular st pKF i [] cnt = cnt"
| "KeyFrameCulling_slots bMonocular st pKF i (None # vp) cnt =
     KeyFrameCulling_slots bMonocular st pKF (Suc i) vp cnt"
| "KeyFrameCulling_slots bMonocular st pKF i (Some pMP # vp) (nRedundantObservations, nMPs) =
     (if MapPoint_isBad st pMP then
        KeyFrameCulling_slots bMonocular st pKF (Suc i) vp (nRedundantObservations, nMPs)
      else if \<not> bMonocular \<and> (mvDepth (kfs st pKF) ! i > mThDepth (kfs st pKF)
                         \<or> mvDepth (kfs st pKF) ! i < 0) then
        KeyFrameCulling_slots bMonocular st pKF (Suc i) vp (nRedundantObservations, nMPs)
      else if Observations st pMP > 3 then
        (let scaleLevel = octave (mvKeysUn (kfs st pKF) ! i);
             nObs = KeyFrameCulling_observations st pKF scaleLevel 3 (GetObservations st pMP) 0
         in if nObs \<ge> 3
            then KeyFrameCulling_slots bMonocular st pKF (Suc i) vp (nRedundantObservations + 1, nMPs + 1)
            else KeyFrameCulling_slots bMonocular st pKF (Suc i) vp (nRedundantObservations, nMPs + 1))
      else KeyFrameCulling_slots bMonocular st pKF (Suc i) vp (nRedundantObservations, nMPs + 1))"

text \<open>One key frame of the outer loop: the root is skipped, the others are counted.\<close>

definition KeyFrameCulling_keyframe :: "bool \<Rightarrow> KeyFramePtr \<Rightarrow> Store \<Rightarrow> Store" where
  "KeyFrameCulling_keyframe bMonocular pKF st =
     (if mnId (kfs st pKF) = 0 then st
      else case KeyFrameCulling_slots bMonocular st pKF 0 (GetMapPointMatches st pKF) (0, 0) of
             (nRedundantObservations, nMPs) \<Rightarrow>
               if real_of_int nRedundantObservations > 0.9 * real_of_int nMPs
               then KeyFrame_SetBadFlag pKF st else st)"

fun KeyFrameCulling_loop :: "bool \<Rightarrow> KeyFramePtr list \<Rightarrow> Store \<Rightarrow> Store" where
  "KeyFrameCulling_loop bMonocular [] st = st"
| "KeyFrameCulling_loop bMonocular (pKF # vit) st =
     KeyFrameCulling_loop bMonocular vit (KeyFrameCulling_keyframe bMonocular pKF st)"

definition KeyFrameCulling :: "LocalMapping \<Rightarrow> LocalMapping" where
  "KeyFrameCulling s =
     (let vpLocalKeyFrames = GetVectorCovisibleKeyFrames (store s) (mpCurrentKeyFrame s)
      in s\<lparr>store := KeyFrameCulling_loop (mbMonocular s) vpLocalKeyFrames (store s)\<rparr>)"

subsection \<open>Vectors\<close>

definition dot3 :: "vec3 \<Rightarrow> vec3 \<Rightarrow> real" where
  "dot3 a b = (case a of (a0, a1, a2) \<Rightarrow> case b of (b0, b1, b2) \<Rightarrow> a0 * b0 + a1 * b1 + a2 * b2)"

definition norm3 :: "vec3 \<Rightarrow> real" where
  "norm3 a = sqrt (dot3 a a)"

definition sub3 :: "vec3 \<Rightarrow> vec3 \<Rightarrow> vec3" where
  "sub3 a b = (case a of (a0, a1, a2) \<Rightarrow> case b of (b0, b1, b2) \<Rightarrow> (a0 - b0, a1 - b1, a2 - b2))"

definition row0 :: "mat3 \<Rightarrow> vec3" where "row0 m = fst m"
definition row1 :: "mat3 \<Rightarrow> vec3" where "row1 m = fst (snd m)"
definition row2 :: "mat3 \<Rightarrow> vec3" where "row2 m = snd (snd m)"

definition at0 :: "vec3 \<Rightarrow> real" where "at0 a = fst a"
definition at1 :: "vec3 \<Rightarrow> real" where "at1 a = fst (snd a)"
definition at2 :: "vec3 \<Rightarrow> real" where "at2 a = snd (snd a)"

definition transpose3 :: "mat3 \<Rightarrow> mat3" where
  "transpose3 m = ((at0 (row0 m), at0 (row1 m), at0 (row2 m)),
                   (at1 (row0 m), at1 (row1 m), at1 (row2 m)),
                   (at2 (row0 m), at2 (row1 m), at2 (row2 m)))"

definition mat_vec :: "mat3 \<Rightarrow> vec3 \<Rightarrow> vec3" where
  "mat_vec m a = (dot3 (row0 m) a, dot3 (row1 m) a, dot3 (row2 m) a)"

text \<open>Row \<open>r\<close> of the 3 by 4 matrix \<^verbatim>\<open>Tcw\<close> = \<^verbatim>\<open>[Rcw | tcw]\<close>.\<close>

definition Tcw_row0 :: "Camera \<Rightarrow> vec4" where
  "Tcw_row0 c = (at0 (row0 (Rcw c)), at1 (row0 (Rcw c)), at2 (row0 (Rcw c)), at0 (tcw c))"
definition Tcw_row1 :: "Camera \<Rightarrow> vec4" where
  "Tcw_row1 c = (at0 (row1 (Rcw c)), at1 (row1 (Rcw c)), at2 (row1 (Rcw c)), at1 (tcw c))"
definition Tcw_row2 :: "Camera \<Rightarrow> vec4" where
  "Tcw_row2 c = (at0 (row2 (Rcw c)), at1 (row2 (Rcw c)), at2 (row2 (Rcw c)), at2 (tcw c))"

text \<open>\<^verbatim>\<open>k * a - b\<close> on rows of four.\<close>

definition scale_sub4 :: "real \<Rightarrow> vec4 \<Rightarrow> vec4 \<Rightarrow> vec4" where
  "scale_sub4 k a b =
     (case a of (a0, a1, a2, a3) \<Rightarrow> case b of (b0, b1, b2, b3) \<Rightarrow>
        (k * a0 - b0, k * a1 - b1, k * a2 - b2, k * a3 - b3))"

text \<open>The C library's \<^verbatim>\<open>atan2(y, x)\<close>.\<close>

definition atan2 :: "real \<Rightarrow> real \<Rightarrow> real" where
  "atan2 y x = (if x > 0 then arctan (y / x)
                else if x < 0 \<and> y \<ge> 0 then arctan (y / x) + pi
                else if x < 0 \<and> y < 0 then arctan (y / x) - pi
                else if y > 0 then pi / 2
                else if y < 0 then - pi / 2
                else 0)"

subsection \<open>Triangulating one match (the body of the inner loop of CreateNewMapPoints)\<close>

text \<open>
  Lines 284 to 293: the three cosines
  \<^verbatim>\<open>(cosParallaxStereo1, cosParallaxStereo2, cosParallaxStereo)\<close>; \<open>mb1\<close>,
  \<open>depth1\<close> are \<^verbatim>\<open>mpCurrentKeyFrame->mb\<close> and \<^verbatim>\<open>mpCurrentKeyFrame->mvDepth[idx1]\<close>,
  \<open>mb2\<close>, \<open>depth2\<close> those of \<^verbatim>\<open>pKF2\<close>. The second cosine is computed in the
  \<^verbatim>\<open>else if\<close> branch only.
\<close>

definition stereo_parallax ::
  "real \<Rightarrow> bool \<Rightarrow> real \<Rightarrow> real \<Rightarrow> bool \<Rightarrow> real \<Rightarrow> real \<Rightarrow> real \<times> real \<times> real" where
  "stereo_parallax cosParallaxRays bStereo1 mb1 depth1 bStereo2 mb2 depth2 =
     (let cosParallaxStereo = cosParallaxRays + 1;
          cosParallaxStereo1 =
            (if bStereo1 then cos (2 * atan2 (mb1 / 2) depth1) else cosParallaxStereo);
          cosParallaxStereo2 =
            (if \<not> bStereo1 \<and> bStereo2 then cos (2 * atan2 (mb2 / 2) depth2)
             else cosParallaxStereo)
      in (cosParallaxStereo1, cosParallaxStereo2, min cosParallaxStereo1 cosParallaxStereo2))"

text \<open>
  Lines 268 to 282: the cosine of the angle between the viewing rays of the two key
  points; \<open>kf1\<close> is \<^verbatim>\<open>mpCurrentKeyFrame\<close> and \<open>kf2\<close> is \<^verbatim>\<open>pKF2\<close>.
\<close>

definition ray_parallax :: "KeyFrame \<Rightarrow> KeyFrame \<Rightarrow> nat \<Rightarrow> nat \<Rightarrow> real" where
  "ray_parallax kf1 kf2 idx1 idx2 =
     (let c1 = camera kf1; c2 = camera kf2;
          kp1 = mvKeysUn kf1 ! idx1;
          kp2 = mvKeysUn kf2 ! idx2;
          xn1 = ((pt_x kp1 - cx c1) * invfx c1, (pt_y kp1 - cy c1) * invfy c1, 1);
          xn2 = ((pt_x kp2 - cx c2) * invfx c2, (pt_y kp2 - cy c2) * invfy c2, 1);
          ray1 = mat_vec (transpose3 (Rcw c1)) xn1;
          ray2 = mat_vec (transpose3 (Rcw c2)) xn2
      in dot3 ray1 ray2 / (norm3 ray1 * norm3 ray2))"

text \<open>Lines 284 to 293 as \<^verbatim>\<open>CreateNewMapPoints\<close> runs them for the two key frames.\<close>

definition candidate_parallax :: "KeyFrame \<Rightarrow> KeyFrame \<Rightarrow> nat \<Rightarrow> nat \<Rightarrow> real \<times> real \<times> real" where
  "candidate_parallax kf1 kf2 idx1 idx2 =
     stereo_parallax (ray_parallax kf1 kf2 idx1 idx2)
       (mvuRight kf1 ! idx1 \<ge> 0) (mb (camera kf1)) (mvDepth kf1 ! idx1)
       (mvuRight kf2 ! idx2 \<ge> 0) (mb (camera kf2)) (mvDepth kf2 ! idx2)"

text \<open>
  Lines 336 to 358: the reprojection test in the current key frame; true when the
  candidate is dropped (\<^verbatim>\<open>continue\<close>). \<open>c1\<close> is the camera of
  \<^verbatim>\<open>mpCurrentKeyFrame\<close> and \<open>x1\<close>, \<open>y1\<close>, \<open>z1\<close> are the \<^verbatim>\<open>float\<close>
  coordinates of the point in its frame. \<^verbatim>\<open>1.0/z1\<close> is a division of
  \<^verbatim>\<open>double\<close>, stored as \<^verbatim>\<open>float\<close>; the squared errors are sums of
  \<^verbatim>\<open>float\<close>; the comparison is one of \<^verbatim>\<open>double\<close>, the threshold being the
  \<^verbatim>\<open>double\<close> nearest to 5.991 or 7.8 times the level variance.
\<close>

definition reprojection1_fails :: "Camera \<Rightarrow> KeyPoint \<Rightarrow> real \<Rightarrow> fp \<Rightarrow> fp \<Rightarrow> fp \<Rightarrow> bool" where
  "reprojection1_fails c1 kp1 kp1_ur x1 y1 z1 =
     (let bStereo1 = (kp1_ur \<ge> 0);
          sigmaSquare1 = Finite (mvLevelSigma2 c1 ! nat (octave kp1));
          invz1 = to_float (div64 (Finite 1) z1)
      in if \<not> bStereo1 then
           (let u1 = add32 (mul32 (mul32 (Finite (fx c1)) x1) invz1) (Finite (cx c1));
                v1 = add32 (mul32 (mul32 (Finite (fy c1)) y1) invz1) (Finite (cy c1));
                errX1 = sub32 u1 (Finite (pt_x kp1));
                errY1 = sub32 v1 (Finite (pt_y kp1))
            in fp_gt (add32 (mul32 errX1 errX1) (mul32 errY1 errY1))
                 (mul64 (round_to binary64 5.991) sigmaSquare1))
         else
           (let u1 = add32 (mul32 (mul32 (Finite (fx c1)) x1) invz1) (Finite (cx c1));
                u1_r = sub32 u1 (mul32 (Finite (mbf c1)) invz1);
                v1 = add32 (mul32 (mul32 (Finite (fy c1)) y1) invz1) (Finite (cy c1));
                errX1 = sub32 u1 (Finite (pt_x kp1));
                errY1 = sub32 v1 (Finite (pt_y kp1));
                errX1_r = sub32 u1_r (Finite kp1_ur)
            in fp_gt (add32 (add32 (mul32 errX1 errX1) (mul32 errY1 errY1))
                        (mul32 errX1_r errX1_r))
                 (mul64 (round_to binary64 7.8) sigmaSquare1)))"

text \<open>
  Lines 360 to 381: the reprojection test in the neighbour \<^verbatim>\<open>pKF2\<close> (camera
  \<open>c2\<close>); the right-image coordinate is predicted with \<^verbatim>\<open>mpCurrentKeyFrame->mbf\<close>,
  the \<open>mbf\<close> of \<open>c1\<close>.
\<close>

definition reprojection2_fails ::
  "Camera \<Rightarrow> Camera \<Rightarrow> KeyPoint \<Rightarrow> real \<Rightarrow> fp \<Rightarrow> fp \<Rightarrow> fp \<Rightarrow> bool" where
  "reprojection2_fails c1 c2 kp2 kp2_ur x2 y2 z2 =
     (let bStereo2 = (kp2_ur \<ge> 0);
          sigmaSquare2 = Finite (mvLevelSigma2 c2 ! nat (octave kp2));
          invz2 = to_float (div64 (Finite 1) z2)
      in if \<not> bStereo2 then
           (let u2 = add32 (mul32 (mul32 (Finite (fx c2)) x2) invz2) (Finite (cx c2));
                v2 = add32 (mul32 (mul32 (Finite (fy c2)) y2) invz2) (Finite (cy c2));
                errX2 = sub32 u2 (Finite (pt_x kp2));
                errY2 = sub32 v2 (Finite (pt_y kp2))
            in fp_gt (add32 (mul32 errX2 errX2) (mul32 errY2 errY2))
                 (mul64 (round_to binary64 5.991) sigmaSquare2))
         else
           (let u2 = add32 (mul32 (mul32 (Finite (fx c2)) x2) invz2) (Finite (cx c2));
                u2_r = sub32 u2 (mul32 (Finite (mbf c1)) invz2);
                v2 = add32 (mul32 (mul32 (Finite (fy c2)) y2) invz2) (Finite (cy c2));
                errX2 = sub32 u2 (Finite (pt_x kp2));
                errY2 = sub32 v2 (Finite (pt_y kp2));
                errX2_r = sub32 u2_r (Finite kp2_ur)
            in fp_gt (add32 (add32 (mul32 errX2 errX2) (mul32 errY2 errY2))
                        (mul32 errX2_r errX2_r))
                 (mul64 (round_to binary64 7.8) sigmaSquare2)))"

text \<open>
  Lines 276 to 323: the parallax of the two rays and the choice between linear
  triangulation and the stereo depth of one view. \<open>None\<close> is \<^verbatim>\<open>continue\<close>.
\<close>

definition triangulate_x3D ::
  "Collaborators \<Rightarrow> KeyFrame \<Rightarrow> KeyFrame \<Rightarrow> nat \<Rightarrow> nat \<Rightarrow> vec3 option" where
  "triangulate_x3D E kf1 kf2 idx1 idx2 =
     (let c1 = camera kf1; c2 = camera kf2;
          kp1 = mvKeysUn kf1 ! idx1;
          kp1_ur = mvuRight kf1 ! idx1;
          bStereo1 = (kp1_ur \<ge> 0);
          kp2 = mvKeysUn kf2 ! idx2;
          kp2_ur = mvuRight kf2 ! idx2;
          bStereo2 = (kp2_ur \<ge> 0);
          xn1 = ((pt_x kp1 - cx c1) * invfx c1, (pt_y kp1 - cy c1) * invfy c1, 1);
          xn2 = ((pt_x kp2 - cx c2) * invfx c2, (pt_y kp2 - cy c2) * invfy c2, 1);
          cosParallaxRays = ray_parallax kf1 kf2 idx1 idx2
      in case candidate_parallax kf1 kf2 idx1 idx2 of
           (cosParallaxStereo1, cosParallaxStereo2, cosParallaxStereo) \<Rightarrow>
             if cosParallaxRays < cosParallaxStereo \<and> cosParallaxRays > 0
                \<and> (bStereo1 \<or> bStereo2 \<or> cosParallaxRays < 0.9998) then
               (case SVD_vt_row3 E
                       (scale_sub4 (at0 xn1) (Tcw_row2 c1) (Tcw_row0 c1),
                        scale_sub4 (at1 xn1) (Tcw_row2 c1) (Tcw_row1 c1),
                        scale_sub4 (at0 xn2) (Tcw_row2 c2) (Tcw_row0 c2),
                        scale_sub4 (at1 xn2) (Tcw_row2 c2) (Tcw_row1 c2)) of
                  (h0, h1, h2, h3) \<Rightarrow>
                    if h3 = 0 then None else Some (h0 / h3, h1 / h3, h2 / h3))
             else if bStereo1 \<and> cosParallaxStereo1 < cosParallaxStereo2 then
               Some (UnprojectStereo E kf1 idx1)
             else if bStereo2 \<and> cosParallaxStereo2 < cosParallaxStereo1 then
               Some (UnprojectStereo E kf2 idx2)
             else None)"

text \<open>
  Lines 325 to 399: the point must lie in front of both cameras, reproject within the
  thresholds in both views and agree with the scales of the two key points.
  \<open>(x1, y1, z1)\<close> and \<open>(x2, y2, z2)\<close> are the \<^verbatim>\<open>float\<close> coordinates of the
  point in the two camera frames.
\<close>

definition accept_x3D ::
  "Collaborators \<Rightarrow> KeyFrame \<Rightarrow> KeyFrame \<Rightarrow> nat \<Rightarrow> nat \<Rightarrow> vec3 \<Rightarrow> bool" where
  "accept_x3D E kf1 kf2 idx1 idx2 x3D =
     (let c1 = camera kf1; c2 = camera kf2;
          kp1 = mvKeysUn kf1 ! idx1;
          kp1_ur = mvuRight kf1 ! idx1;
          kp2 = mvKeysUn kf2 ! idx2;
          kp2_ur = mvuRight kf2 ! idx2
      in case CameraCoordinates E c1 x3D of (x1, y1, z1) \<Rightarrow>
         case CameraCoordinates E c2 x3D of (x2, y2, z2) \<Rightarrow>
           if fp_le z1 (Finite 0) then False
           else if fp_le z2 (Finite 0) then False
           else if reprojection1_fails c1 kp1 kp1_ur x1 y1 z1 then False
           else if reprojection2_fails c1 c2 kp2 kp2_ur x2 y2 z2 then False
           else
             (let dist1 = norm3 (sub3 x3D (Ow c1));
                  dist2 = norm3 (sub3 x3D (Ow c2))
              in if dist1 = 0 \<or> dist2 = 0 then False
                 else
                   (let ratioDist = dist2 / dist1;
                        ratioOctave = mvScaleFactors c1 ! nat (octave kp1)
                                      / mvScaleFactors c2 ! nat (octave kp2);
                        ratioFactor = 1.5 * mfScaleFactor c1
                    in \<not> (ratioDist * ratioFactor < ratioOctave
                           \<or> ratioDist > ratioOctave * ratioFactor))))"

definition triangulate_match ::
  "Collaborators \<Rightarrow> KeyFrame \<Rightarrow> KeyFrame \<Rightarrow> nat \<Rightarrow> nat \<Rightarrow> vec3 option" where
  "triangulate_match E kf1 kf2 idx1 idx2 =
     (case triangulate_x3D E kf1 kf2 idx1 idx2 of
        None \<Rightarrow> None
      | Some x3D \<Rightarrow> if accept_x3D E kf1 kf2 idx1 idx2 x3D then Some x3D else None)"

subsection \<open>The other threads\<close>

fun serve :: "request \<Rightarrow> LocalMapping \<Rightarrow> LocalMapping" where
  "serve (Req_InsertKeyFrame pKF) s = InsertKeyFrame pKF s"
| "serve Req_RequestStop s = RequestStop s"
| "serve (Req_SetNotStop flag) s = snd (SetNotStop flag s)"
| "serve Req_Release s = Release s"
| "serve Req_InterruptBA s = InterruptBA s"
| "serve Req_RequestReset s = RequestReset s"
| "serve Req_RequestFinish s = RequestFinish s"

text \<open>
  Before the mapper takes a mutex, the calls that the other threads have made since its
  last one take effect.
\<close>

definition sync :: "LocalMapping \<Rightarrow> LocalMapping" where
  "sync s = (case others s of [] \<Rightarrow> s | g # gs \<Rightarrow> fold serve g (s\<lparr>others := gs\<rparr>))"

subsection \<open>ProcessNewKeyFrame\<close>

text \<open>
  The loop over the slots of the new key frame (lines 139 to 152), from slot \<open>i\<close> on.
  \<^verbatim>\<open>UpdateNormalAndDepth\<close> and \<^verbatim>\<open>ComputeDistinctiveDescriptors\<close> recompute
  the normal, the depth range and the descriptor, which the store does not hold.
\<close>

fun ProcessNewKeyFrame_slots ::
  "KeyFramePtr \<Rightarrow> nat \<Rightarrow> MapPointPtr option list \<Rightarrow> LocalMapping \<Rightarrow> LocalMapping" where
  "ProcessNewKeyFrame_slots pKF i [] s = s"
| "ProcessNewKeyFrame_slots pKF i (None # vp) s = ProcessNewKeyFrame_slots pKF (Suc i) vp s"
| "ProcessNewKeyFrame_slots pKF i (Some pMP # vp) s =
     (if \<not> MapPoint_isBad (store s) pMP then
        (if \<not> IsInKeyFrame (store s) pMP pKF then
           ProcessNewKeyFrame_slots pKF (Suc i) vp
             (s\<lparr>store := AddObservation pMP pKF i (store s)\<rparr>)
         else
           ProcessNewKeyFrame_slots pKF (Suc i) vp
             (s\<lparr>mlpRecentAddedMapPoints := mlpRecentAddedMapPoints s @ [pMP]\<rparr>))
      else ProcessNewKeyFrame_slots pKF (Suc i) vp s)"

text \<open>
  \<^verbatim>\<open>Run\<close> calls \<^verbatim>\<open>ProcessNewKeyFrame\<close> only after
  \<^verbatim>\<open>CheckNewKeyFrames\<close> has answered true, and only the mapper takes key frames out
  of the queue while it runs; on an empty queue the model leaves the state as it is.
\<close>

definition ProcessNewKeyFrame :: "Collaborators \<Rightarrow> LocalMapping \<Rightarrow> LocalMapping" where
  "ProcessNewKeyFrame E s =
     (case mlNewKeyFrames s of
        [] \<Rightarrow> s
      | pKF # rest \<Rightarrow>
          (let s1 = s\<lparr>mpCurrentKeyFrame := pKF, mlNewKeyFrames := rest\<rparr>;
               vpMapPointMatches = GetMapPointMatches (store s1) pKF;
               s2 = ProcessNewKeyFrame_slots pKF 0 vpMapPointMatches s1
           in s2\<lparr>store := Map_AddKeyFrame pKF (KeyFrame_UpdateConnections E pKF (store s2))\<rparr>))"

subsection \<open>CreateNewMapPoints\<close>

text \<open>
  Lines 225 to 239: the neighbour is skipped (\<^verbatim>\<open>continue\<close>) when the baseline is
  too short.
\<close>

definition baseline_too_short ::
  "Collaborators \<Rightarrow> bool \<Rightarrow> Store \<Rightarrow> KeyFramePtr \<Rightarrow> KeyFramePtr \<Rightarrow> bool" where
  "baseline_too_short E bMonocular st pKF1 pKF2 =
     (let Ow1 = Ow (camera (kfs st pKF1));
          Ow2 = Ow (camera (kfs st pKF2));
          vBaseline = sub3 Ow2 Ow1;
          baseline = norm3 vBaseline
      in if \<not> bMonocular then baseline < mb (camera (kfs st pKF2))
         else
           (let medianDepthKF2 = ComputeSceneMedianDepth E st pKF2;
                ratioBaselineDepth = baseline / medianDepthKF2
            in ratioBaselineDepth < 0.01))"

text \<open>
  Lines 402 to 408: the new point is created and registered in both key frames, on both
  sides.
\<close>

definition link_MapPoint ::
  "KeyFramePtr \<Rightarrow> KeyFramePtr \<Rightarrow> nat \<Rightarrow> nat \<Rightarrow> Store \<Rightarrow> MapPointPtr \<times> Store" where
  "link_MapPoint pCur pKF2 idx1 idx2 st =
     (case new_MapPoint pCur st of
        (pMP, st0) \<Rightarrow>
          (let st1 = AddObservation pMP pCur idx1 st0;
               st2 = AddObservation pMP pKF2 idx2 st1;
               st3 = KeyFrame_AddMapPoint pCur pMP idx1 st2;
               st4 = KeyFrame_AddMapPoint pKF2 pMP idx2 st3
           in (pMP, st4)))"

text \<open>
  Lines 402 to 415: after the registration (and the descriptor and the normal, which the
  store does not hold) the point is added to the map and to the recent-added list.
\<close>

definition register_MapPoint ::
  "KeyFramePtr \<Rightarrow> nat \<Rightarrow> nat \<Rightarrow> LocalMapping \<Rightarrow> LocalMapping" where
  "register_MapPoint pKF2 idx1 idx2 s =
     (case link_MapPoint (mpCurrentKeyFrame s) pKF2 idx1 idx2 (store s) of
        (pMP, st4) \<Rightarrow>
          s\<lparr>store := Map_AddMapPoint pMP st4,
            mlpRecentAddedMapPoints := mlpRecentAddedMapPoints s @ [pMP]\<rparr>)"

text \<open>The inner loop (lines 264 to 418) over the matched index pairs.\<close>

fun CreateNewMapPoints_matches ::
  "Collaborators \<Rightarrow> KeyFramePtr \<Rightarrow> (nat \<times> nat) list \<Rightarrow> LocalMapping \<Rightarrow> LocalMapping" where
  "CreateNewMapPoints_matches E pKF2 [] s = s"
| "CreateNewMapPoints_matches E pKF2 ((idx1, idx2) # vMatchedIndices) s =
     (case triangulate_match E (kfs (store s) (mpCurrentKeyFrame s)) (kfs (store s) pKF2)
             idx1 idx2 of
        None \<Rightarrow> CreateNewMapPoints_matches E pKF2 vMatchedIndices s
      | Some x3D \<Rightarrow>
          CreateNewMapPoints_matches E pKF2 vMatchedIndices (register_MapPoint pKF2 idx1 idx2 s))"

text \<open>
  The outer loop (lines 219 to 419) over the neighbours, \<open>i\<close> being the index of the
  first one left. The fundamental matrix \<^verbatim>\<open>F12\<close> is a function of the two key
  frames, which the matcher receives.
\<close>

fun CreateNewMapPoints_loop ::
  "Collaborators \<Rightarrow> nat \<Rightarrow> KeyFramePtr list \<Rightarrow> LocalMapping \<Rightarrow> LocalMapping" where
  "CreateNewMapPoints_loop E i [] s = s"
| "CreateNewMapPoints_loop E i (pKF2 # vpNeighKFs) s =
     (let s1 = (if i > 0 then sync s else s)
      in if i > 0 \<and> CheckNewKeyFrames s1 then s1
         else if baseline_too_short E (mbMonocular s1) (store s1) (mpCurrentKeyFrame s1) pKF2
         then CreateNewMapPoints_loop E (Suc i) vpNeighKFs s1
         else
           (let vMatchedIndices =
                  SearchForTriangulation E (store s1) (mpCurrentKeyFrame s1) pKF2;
                s2 = s1\<lparr>calls := calls s1
                                 @ [Call_SearchForTriangulation (mpCurrentKeyFrame s1) pKF2]\<rparr>
            in CreateNewMapPoints_loop E (Suc i) vpNeighKFs
                 (CreateNewMapPoints_matches E pKF2 vMatchedIndices s2)))"

definition CreateNewMapPoints :: "Collaborators \<Rightarrow> LocalMapping \<Rightarrow> LocalMapping" where
  "CreateNewMapPoints E s =
     (let nn = (if mbMonocular s then 20 else 10);
          vpNeighKFs = GetBestCovisibilityKeyFrames (store s) (mpCurrentKeyFrame s) nn
      in CreateNewMapPoints_loop E 0 vpNeighKFs s)"

subsection \<open>SearchInNeighbors\<close>

text \<open>Lines 438 to 443: the second neighbours are appended to \<^verbatim>\<open>vpTargetKFs\<close>.\<close>

fun SearchInNeighbors_second ::
  "Store \<Rightarrow> KeyFramePtr \<Rightarrow> KeyFramePtr list \<Rightarrow> KeyFramePtr list \<Rightarrow> KeyFramePtr list" where
  "SearchInNeighbors_second st pCur [] vpTargetKFs = vpTargetKFs"
| "SearchInNeighbors_second st pCur (pKFi2 # vit2) vpTargetKFs =
     (if KeyFrame_isBad st pKFi2
         \<or> mnFuseTargetForKF (kfs st pKFi2) = mnId (kfs st pCur)
         \<or> mnId (kfs st pKFi2) = mnId (kfs st pCur)
      then SearchInNeighbors_second st pCur vit2 vpTargetKFs
      else SearchInNeighbors_second st pCur vit2 (vpTargetKFs @ [pKFi2]))"

text \<open>Lines 429 to 444: the targets, and the markers left on the first neighbours.\<close>

fun SearchInNeighbors_targets ::
  "KeyFramePtr \<Rightarrow> KeyFramePtr list \<Rightarrow> Store \<times> KeyFramePtr list \<Rightarrow> Store \<times> KeyFramePtr list" where
  "SearchInNeighbors_targets pCur [] acc = acc"
| "SearchInNeighbors_targets pCur (pKFi # vit) (st, vpTargetKFs) =
     (if KeyFrame_isBad st pKFi \<or> mnFuseTargetForKF (kfs st pKFi) = mnId (kfs st pCur)
      then SearchInNeighbors_targets pCur vit (st, vpTargetKFs)
      else
        (let st1 = st\<lparr>kfs := (kfs st)(pKFi := (kfs st pKFi)
                          \<lparr>mnFuseTargetForKF := mnId (kfs st pCur)\<rparr>)\<rparr>;
             vpSecondNeighKFs = GetBestCovisibilityKeyFrames st1 pKFi 5
         in SearchInNeighbors_targets pCur vit
              (st1, SearchInNeighbors_second st1 pCur vpSecondNeighKFs (vpTargetKFs @ [pKFi]))))"

text \<open>Lines 450 to 454: the map points of the current key frame are fused into every target.\<close>

fun SearchInNeighbors_forward ::
  "Collaborators \<Rightarrow> MapPointPtr option list \<Rightarrow> KeyFramePtr list \<Rightarrow> LocalMapping \<Rightarrow> LocalMapping" where
  "SearchInNeighbors_forward E vpMapPointMatches [] s = s"
| "SearchInNeighbors_forward E vpMapPointMatches (pKFi # vit) s =
     SearchInNeighbors_forward E vpMapPointMatches vit
       (s\<lparr>store := Fuse E pKFi vpMapPointMatches (store s),
          calls := calls s @ [Call_Fuse pKFi]\<rparr>)"

text \<open>Lines 465 to 473: the candidates among the map points of one target.\<close>

fun SearchInNeighbors_candidates_of ::
  "KeyFramePtr \<Rightarrow> MapPointPtr option list \<Rightarrow> Store \<times> MapPointPtr list \<Rightarrow> Store \<times> MapPointPtr list" where
  "SearchInNeighbors_candidates_of pCur [] acc = acc"
| "SearchInNeighbors_candidates_of pCur (None # vitMP) acc =
     SearchInNeighbors_candidates_of pCur vitMP acc"
| "SearchInNeighbors_candidates_of pCur (Some pMP # vitMP) (st, vpFuseCandidates) =
     (if MapPoint_isBad st pMP \<or> mnFuseCandidateForKF (mps st pMP) = mnId (kfs st pCur)
      then SearchInNeighbors_candidates_of pCur vitMP (st, vpFuseCandidates)
      else SearchInNeighbors_candidates_of pCur vitMP
             (st\<lparr>mps := (mps st)(pMP := (mps st pMP)
                     \<lparr>mnFuseCandidateForKF := mnId (kfs st pCur)\<rparr>)\<rparr>,
              vpFuseCandidates @ [pMP]))"

text \<open>Lines 460 to 474: the candidates of all targets.\<close>

fun SearchInNeighbors_candidates ::
  "KeyFramePtr \<Rightarrow> KeyFramePtr list \<Rightarrow> Store \<times> MapPointPtr list \<Rightarrow> Store \<times> MapPointPtr list" where
  "SearchInNeighbors_candidates pCur [] acc = acc"
| "SearchInNeighbors_candidates pCur (pKFi # vitKF) (st, vpFuseCandidates) =
     SearchInNeighbors_candidates pCur vitKF
       (SearchInNeighbors_candidates_of pCur (GetMapPointMatches st pKFi) (st, vpFuseCandidates))"

text \<open>
  The whole pass. It takes none of the mapper's mutexes and reads neither the queue nor a
  flag. The last loop (lines 480 to 488) recomputes descriptors and normals only.
\<close>

definition SearchInNeighbors :: "Collaborators \<Rightarrow> LocalMapping \<Rightarrow> LocalMapping" where
  "SearchInNeighbors E s =
     (let pCur = mpCurrentKeyFrame s;
          nn = (if mbMonocular s then 20 else 10);
          vpNeighKFs = GetBestCovisibilityKeyFrames (store s) pCur nn
      in case SearchInNeighbors_targets pCur vpNeighKFs (store s, []) of
           (st1, vpTargetKFs) \<Rightarrow>
             (let vpMapPointMatches = GetMapPointMatches st1 pCur;
                  s2 = SearchInNeighbors_forward E vpMapPointMatches vpTargetKFs
                         (s\<lparr>store := st1\<rparr>)
              in case SearchInNeighbors_candidates pCur vpTargetKFs (store s2, []) of
                   (st3, vpFuseCandidates) \<Rightarrow>
                     s2\<lparr>store := KeyFrame_UpdateConnections E pCur
                                   (Fuse E pCur (map Some vpFuseCandidates) st3),
                        calls := calls s2 @ [Call_Fuse pCur]\<rparr>))"

subsection \<open>Run\<close>

text \<open>
  Lines 68 to 81: the stages of one iteration up to the test that guards local bundle
  adjustment. The result is the state in which that test (line 83) is evaluated.
\<close>

definition Run_before_LocalBA :: "Collaborators \<Rightarrow> LocalMapping \<Rightarrow> LocalMapping" where
  "Run_before_LocalBA E s =
     (let s1 = ProcessNewKeyFrame E s;
          s2 = MapPointCulling s1;
          s3 = CreateNewMapPoints E s2;
          s4 = sync s3;
          s5 = (if \<not> CheckNewKeyFrames s4 then SearchInNeighbors E s4 else s4);
          s6 = s5\<lparr>mbAbortBA := False\<rparr>
      in sync s6)"

text \<open>Lines 83 to 90: local bundle adjustment and key frame culling.\<close>

definition Run_LocalBA :: "Collaborators \<Rightarrow> LocalMapping \<Rightarrow> LocalMapping" where
  "Run_LocalBA E s =
     (if \<not> CheckNewKeyFrames s \<and> \<not> stopRequested s then
        KeyFrameCulling
          (if KeyFramesInMap (store s) > 2
           then s\<lparr>store := LocalBundleAdjustment E (mpCurrentKeyFrame s) (store s),
                  calls := calls s @ [Call_LocalBundleAdjustment (mpCurrentKeyFrame s)]\<rparr>
           else s)
      else s)"

text \<open>Lines 92 to 93: the key frame is handed to the loop closer, if there is one.\<close>

definition Run_handoff :: "LocalMapping \<Rightarrow> LocalMapping" where
  "Run_handoff s =
     (if mpLoopCloser s
      then s\<lparr>calls := calls s @ [Call_LoopCloser_InsertKeyFrame (mpCurrentKeyFrame s)]\<rparr>
      else s)"

text \<open>
  Lines 96 to 98: the mapper polls while it is stopped and no finish is requested. When
  no other thread will ever call again, the loop does not end: the second component is
  false.
\<close>

function wait_while_stopped :: "LocalMapping \<Rightarrow> LocalMapping \<times> bool" where
  "wait_while_stopped s =
     (if isStopped s \<and> \<not> CheckFinish s
      then (if others s = [] then (s, False) else wait_while_stopped (sync s))
      else (s, True))"
  by pat_completeness auto

termination wait_while_stopped
proof (relation "measure (\<lambda>s. length (others s))")
  show "wf (measure (\<lambda>s. length (others s)))" by simp
next
  fix s :: LocalMapping
  assume pending: "others s \<noteq> []"
  have others_serve: "others (serve r t) = others t" for r t
    by (cases r)
       (simp_all add: InsertKeyFrame_def RequestStop_def SetNotStop_def Release_def
          InterruptBA_def RequestReset_def RequestFinish_def)
  have others_fold_serve: "others (fold serve g t) = others t" for g t
    by (induction g arbitrary: t) (simp_all add: others_serve)
  have "others (sync s) = tl (others s)"
    by (cases "others s") (simp_all add: sync_def others_fold_serve)
  with pending show "(sync s, s) \<in> measure (\<lambda>s. length (others s))"
    by (cases "others s") simp_all
qed

declare wait_while_stopped.simps [simp del]

text \<open>How one iteration of the loop of \<^verbatim>\<open>Run\<close> ends.\<close>

datatype outcome = Continue | Break | Spins

text \<open>Lines 103 to 111: the end of an iteration.\<close>

definition Run_end :: "LocalMapping \<Rightarrow> LocalMapping \<times> outcome" where
  "Run_end s =
     (let s1 = ResetIfRequested (sync s);
          s2 = SetAcceptKeyFrames True s1;
          s3 = sync s2
      in if CheckFinish s3 then (s3, Break) else (s3, Continue))"

text \<open>Lines 62 to 111: one iteration of \<^verbatim>\<open>while (1)\<close>.\<close>

definition Run_iteration :: "Collaborators \<Rightarrow> LocalMapping \<Rightarrow> LocalMapping \<times> outcome" where
  "Run_iteration E s0 =
     (let s = sync (SetAcceptKeyFrames False s0)
      in if CheckNewKeyFrames s then
           Run_end (Run_handoff (Run_LocalBA E (Run_before_LocalBA E s)))
         else
           (case Stop (sync s) of
              (True, s1) \<Rightarrow>
                (case wait_while_stopped s1 of
                   (s2, False) \<Rightarrow> (s2, Spins)
                 | (s2, True) \<Rightarrow> if CheckFinish s2 then (s2, Break) else Run_end s2)
            | (False, s1) \<Rightarrow> Run_end s1))"

text \<open>
  \<^verbatim>\<open>Run\<close>: the flag is cleared, the loop runs until an iteration breaks, and
  \<^verbatim>\<open>SetFinish\<close> ends the thread. The loop is bounded by \<open>n\<close> iterations here;
  \<open>None\<close> says that it has not ended within them.
\<close>

fun Run_loop :: "Collaborators \<Rightarrow> nat \<Rightarrow> LocalMapping \<Rightarrow> LocalMapping option" where
  "Run_loop E 0 s = None"
| "Run_loop E (Suc n) s =
     (case Run_iteration E s of
        (s', Break) \<Rightarrow> Some s'
      | (s', Continue) \<Rightarrow> Run_loop E n s'
      | (s', Spins) \<Rightarrow> None)"

definition Run :: "Collaborators \<Rightarrow> nat \<Rightarrow> LocalMapping \<Rightarrow> LocalMapping option" where
  "Run E n s = map_option SetFinish (Run_loop E n (s\<lparr>mbFinished := False\<rparr>))"

text \<open>The calls of the optimizer made so far.\<close>

fun is_LocalBA :: "call \<Rightarrow> bool" where
  "is_LocalBA (Call_LocalBundleAdjustment pKF) = True"
| "is_LocalBA c = False"

definition LocalBA_calls :: "LocalMapping \<Rightarrow> call list" where
  "LocalBA_calls s = filter is_LocalBA (calls s)"

text \<open>The calls of \<^verbatim>\<open>ORBmatcher::Fuse\<close> made so far.\<close>

fun is_Fuse :: "call \<Rightarrow> bool" where
  "is_Fuse (Call_Fuse pKF) = True"
| "is_Fuse c = False"

definition Fuse_calls :: "LocalMapping \<Rightarrow> call list" where
  "Fuse_calls s = filter is_Fuse (calls s)"

subsection \<open>The constructor\<close>

text \<open>
  The constructor's initialiser list. \<^verbatim>\<open>mpLoopCloser\<close> is the null pointer;
  \<^verbatim>\<open>mpCurrentKeyFrame\<close> is left uninitialised by the source and is address 0 here.
\<close>

definition LocalMapping_init :: "bool \<Rightarrow> Store \<Rightarrow> LocalMapping" where
  "LocalMapping_init bMonocular pMap =
     \<lparr>mbMonocular = bMonocular, mbResetRequested = False, mbFinishRequested = False,
      mbFinished = True, mbAbortBA = False, mbStopped = False, mbStopRequested = False,
      mbNotStop = False, mbAcceptKeyFrames = True, mpLoopCloser = False,
      mlNewKeyFrames = [], mlpRecentAddedMapPoints = [], mpCurrentKeyFrame = 0,
      store = pMap, calls = [], others = []\<rparr>"

section \<open>The specification's words\<close>

subsection \<open>Map point culling (section 4.1, step 3)\<close>

datatype verdict = Already_bad | Cull_found_ratio | Cull_observations | Graduate | Stay

text \<open>
  The decision for a point \<open>p\<close> of the recent-added list, with \<open>N\<close> the id of the
  current key frame and \<open>N0\<close> the id of the first key frame of \<open>p\<close>, both as integers.
\<close>

definition culling_verdict :: "bool \<Rightarrow> nat \<Rightarrow> Store \<Rightarrow> MapPointPtr \<Rightarrow> verdict" where
  "culling_verdict bMonocular N st p =
     (let N0 = mnFirstKFid (mps st p);
          tau = (if bMonocular then 2 else 3)
      in if MapPoint_isBad st p then Already_bad
         else if GetFoundRatio st p < 1 / 4 then Cull_found_ratio
         else if int N - int N0 \<ge> 2 \<and> Observations st p \<le> tau then Cull_observations
         else if int N - int N0 \<ge> 3 then Graduate
         else Stay)"

definition culled :: "verdict \<Rightarrow> bool" where
  "culled v = (v = Cull_found_ratio \<or> v = Cull_observations)"

text \<open>
  The store in which the points of \<open>ps\<close> that the decision culls are marked bad and
  nothing else has changed.
\<close>

definition bad_after :: "bool \<Rightarrow> nat \<Rightarrow> MapPointPtr list \<Rightarrow> Store \<Rightarrow> Store" where
  "bad_after bMonocular N ps st =
     st\<lparr>mps := (\<lambda>q. (mps st q)\<lparr>mp_mbBad := mp_mbBad (mps st q)
                       \<or> (q \<in> set ps \<and> culled (culling_verdict bMonocular N st q))\<rparr>)\<rparr>"

subsection \<open>Key frame culling (section 4.4)\<close>

text \<open>
  Slot \<open>i\<close> of key frame \<open>K\<close> is counted when it holds a map point that is not bad
  and, for stereo and RGB-D, the depth stored for the slot is neither negative nor beyond
  the close-point threshold of \<open>K\<close>.
\<close>

definition counted_slot :: "bool \<Rightarrow> Store \<Rightarrow> KeyFramePtr \<Rightarrow> nat \<times> MapPointPtr option \<Rightarrow> bool" where
  "counted_slot bMonocular st K e =
     (case snd e of
        None \<Rightarrow> False
      | Some p \<Rightarrow> \<not> MapPoint_isBad st p
                  \<and> (bMonocular \<or> \<not> (mvDepth (kfs st K) ! fst e > mThDepth (kfs st K)
                                        \<or> mvDepth (kfs st K) ! fst e < 0)))"

text \<open>
  The observations of \<open>p\<close> by key frames other than \<open>K\<close> at an octave of at most
  \<open>o + 1\<close>.
\<close>

definition other_observations ::
  "Store \<Rightarrow> KeyFramePtr \<Rightarrow> int \<Rightarrow> MapPointPtr \<Rightarrow> (KeyFramePtr \<times> nat) list" where
  "other_observations st K o_K p =
     filter (\<lambda>e. fst e \<noteq> K \<and> octave (mvKeysUn (kfs st (fst e)) ! snd e) \<le> o_K + 1)
       (mObservations (mps st p))"

text \<open>
  The point in slot \<open>i\<close> of \<open>K\<close>, seen there at octave \<open>o\<close>, is redundant when at
  least three other key frames observe it at an octave of at most \<open>o + 1\<close>.
\<close>

definition redundant_slot :: "Store \<Rightarrow> KeyFramePtr \<Rightarrow> nat \<times> MapPointPtr option \<Rightarrow> bool" where
  "redundant_slot st K e =
     (case snd e of
        None \<Rightarrow> False
      | Some p \<Rightarrow>
          3 \<le> length (other_observations st K (octave (mvKeysUn (kfs st K) ! fst e)) p))"

definition counted_points :: "bool \<Rightarrow> Store \<Rightarrow> KeyFramePtr \<Rightarrow> nat" where
  "counted_points bMonocular st K =
     length (filter (counted_slot bMonocular st K) (enumerate 0 (mvpMapPoints (kfs st K))))"

definition redundant_points :: "bool \<Rightarrow> Store \<Rightarrow> KeyFramePtr \<Rightarrow> nat" where
  "redundant_points bMonocular st K =
     length (filter (\<lambda>e. counted_slot bMonocular st K e \<and> redundant_slot st K e)
               (enumerate 0 (mvpMapPoints (kfs st K))))"

text \<open>
  Every map point in a slot of \<open>K\<close> that is not bad lists \<open>K\<close> among its
  observations: \<open>K\<close> observes its points.
\<close>

definition observes_its_points :: "Store \<Rightarrow> KeyFramePtr \<Rightarrow> bool" where
  "observes_its_points st K =
     list_all (\<lambda>slot. case slot of None \<Rightarrow> True
                      | Some p \<Rightarrow> MapPoint_isBad st p \<or> IsInKeyFrame st p K)
       (mvpMapPoints (kfs st K))"

text \<open>
  The rule for one key frame \<open>K\<close>, judged in the store \<open>st\<close>: \<open>K\<close> is not the
  root, and strictly more than 90% of its counted points are redundant.
\<close>

definition culling_rule :: "bool \<Rightarrow> Store \<Rightarrow> KeyFramePtr \<Rightarrow> bool" where
  "culling_rule bMonocular st K \<longleftrightarrow>
     mnId (kfs st K) \<noteq> 0
     \<and> real (redundant_points bMonocular st K) > 0.9 * real (counted_points bMonocular st K)"

text \<open>A key frame that meets the rule is marked bad.\<close>

definition culling_step :: "bool \<Rightarrow> KeyFramePtr \<Rightarrow> Store \<Rightarrow> Store" where
  "culling_step bMonocular K st =
     (if culling_rule bMonocular st K then KeyFrame_SetBadFlag K st else st)"

text \<open>
  A close point of \<open>K\<close>: slot \<open>i\<close> holds a map point that is not bad, and the depth
  stored for the slot is at least 0 and at most the close-point threshold of \<open>K\<close>.
\<close>

definition close_slot :: "Store \<Rightarrow> KeyFramePtr \<Rightarrow> nat \<times> MapPointPtr option \<Rightarrow> bool" where
  "close_slot st K e =
     (case snd e of
        None \<Rightarrow> False
      | Some p \<Rightarrow> \<not> MapPoint_isBad st p
                  \<and> 0 \<le> mvDepth (kfs st K) ! fst e
                  \<and> mvDepth (kfs st K) ! fst e \<le> mThDepth (kfs st K))"

text \<open>
  The point in slot \<open>i\<close> of \<open>K\<close> has more than three observations, at least three of
  them by other key frames at an octave of at most \<open>o + 1\<close>.
\<close>

definition well_observed :: "Store \<Rightarrow> KeyFramePtr \<Rightarrow> nat \<times> MapPointPtr option \<Rightarrow> bool" where
  "well_observed st K e =
     (case snd e of
        None \<Rightarrow> False
      | Some p \<Rightarrow>
          3 < Observations st p
          \<and> 3 \<le> length (other_observations st K (octave (mvKeysUn (kfs st K) ! fst e)) p))"

text \<open>The slots whose stored depth is negative or beyond the threshold, emptied.\<close>

definition without_far_slots ::
  "Store \<Rightarrow> KeyFramePtr \<Rightarrow> nat \<Rightarrow> MapPointPtr option list \<Rightarrow> MapPointPtr option list" where
  "without_far_slots st K i vp =
     map (\<lambda>e. if mvDepth (kfs st K) ! fst e > mThDepth (kfs st K) \<or> mvDepth (kfs st K) ! fst e < 0
              then None else snd e)
       (enumerate i vp)"

subsection \<open>Observation symmetry (section 3, invariant 1)\<close>


subsection \<open>Triangulation tests (section 4.2, steps 2 and 5)\<close>

text \<open>
  The stereo-derived parallax cosine of a view with baseline \<open>b\<close> and a feature at the
  given depth.
\<close>

definition stereo_cosine :: "real \<Rightarrow> real \<Rightarrow> real" where
  "stereo_cosine b depth = cos (2 * atan2 (b / 2) depth)"

text \<open>
  The minimum over the stereo cosines that are available; a view that is not stereo
  contributes the default \<open>cosParallaxRays + 1\<close>.
\<close>

definition least_stereo_cosine ::
  "real \<Rightarrow> bool \<Rightarrow> real \<Rightarrow> real \<Rightarrow> bool \<Rightarrow> real \<Rightarrow> real \<Rightarrow> real" where
  "least_stereo_cosine cosParallaxRays bStereo1 mb1 depth1 bStereo2 mb2 depth2 =
     min (if bStereo1 then stereo_cosine mb1 depth1 else cosParallaxRays + 1)
         (if bStereo2 then stereo_cosine mb2 depth2 else cosParallaxRays + 1)"

text \<open>
  The pixel onto which a camera projects the point \<open>(x, y, z)\<close> of its frame, computed
  in single precision.
\<close>

definition inverse_depth :: "fp \<Rightarrow> fp" where
  "inverse_depth z = to_float (div64 (Finite 1) z)"

definition project_u :: "Camera \<Rightarrow> fp \<Rightarrow> fp \<Rightarrow> fp" where
  "project_u c x z = add32 (mul32 (mul32 (Finite (fx c)) x) (inverse_depth z)) (Finite (cx c))"

definition project_v :: "Camera \<Rightarrow> fp \<Rightarrow> fp \<Rightarrow> fp" where
  "project_v c y z = add32 (mul32 (mul32 (Finite (fy c)) y) (inverse_depth z)) (Finite (cy c))"

text \<open>
  The squared reprojection error of the point against the key point \<open>kp\<close>: two
  residuals for a monocular view, and a third one against the right-image coordinate
  \<open>ur\<close>, predicted with \<open>bf\<close>, for a stereo view.
\<close>

definition sq_error_mono :: "Camera \<Rightarrow> KeyPoint \<Rightarrow> fp \<Rightarrow> fp \<Rightarrow> fp \<Rightarrow> fp" where
  "sq_error_mono c kp x y z =
     (let errX = sub32 (project_u c x z) (Finite (pt_x kp));
          errY = sub32 (project_v c y z) (Finite (pt_y kp))
      in add32 (mul32 errX errX) (mul32 errY errY))"

definition sq_error_stereo :: "real \<Rightarrow> Camera \<Rightarrow> KeyPoint \<Rightarrow> real \<Rightarrow> fp \<Rightarrow> fp \<Rightarrow> fp \<Rightarrow> fp" where
  "sq_error_stereo bf c kp ur x y z =
     (let errX_r = sub32 (sub32 (project_u c x z) (mul32 (Finite bf) (inverse_depth z)))
                     (Finite ur)
      in add32 (sq_error_mono c kp x y z) (mul32 errX_r errX_r))"

text \<open>The level variance of the octave of a key point.\<close>

definition sigma2 :: "Camera \<Rightarrow> KeyPoint \<Rightarrow> real" where
  "sigma2 c kp = mvLevelSigma2 c ! nat (octave kp)"

text \<open>The threshold: the constant, as a \<^verbatim>\<open>double\<close>, times the level variance.\<close>

definition chi2_bound :: "real \<Rightarrow> Camera \<Rightarrow> KeyPoint \<Rightarrow> fp" where
  "chi2_bound chi c kp = mul64 (round_to binary64 chi) (Finite (sigma2 c kp))"

text \<open>
  The squared reprojection error exceeds the threshold: 5.991 times the level variance
  for the two residuals of a monocular view, \<open>chi3\<close> times the level variance for the
  three residuals of a stereo view.
\<close>

definition error_exceeds ::
  "real \<Rightarrow> real \<Rightarrow> Camera \<Rightarrow> KeyPoint \<Rightarrow> real \<Rightarrow> fp \<times> fp \<times> fp \<Rightarrow> bool" where
  "error_exceeds chi3 bf c kp ur P =
     (case P of (x, y, z) \<Rightarrow>
        if ur \<ge> 0 then fp_gt (sq_error_stereo bf c kp ur x y z) (chi2_bound chi3 c kp)
        else fp_gt (sq_error_mono c kp x y z) (chi2_bound 5.991 c kp))"

section \<open>Example states\<close>

definition blank_Camera :: Camera where
  "blank_Camera =
     \<lparr>Rcw = ((1, 0, 0), (0, 1, 0), (0, 0, 1)), tcw = (0, 0, 0), Ow = (0, 0, 0),
      fx = 1, fy = 1, cx = 0, cy = 0, invfx = 1, invfy = 1, mb = 0, mbf = 0,
      mfScaleFactor = 1.2, mvScaleFactors = [1], mvLevelSigma2 = [1]\<rparr>"

definition blank_KeyFrame :: KeyFrame where
  "blank_KeyFrame =
     \<lparr>mnId = 0, mvpMapPoints = [], mvKeysUn = [], mvuRight = [], mvDepth = [],
      mThDepth = 40, kf_mbBad = False, mnFuseTargetForKF = 0,
      mvpOrderedConnectedKeyFrames = [], camera = blank_Camera\<rparr>"

definition blank_MapPoint :: MapPoint where
  "blank_MapPoint =
     \<lparr>mObservations = [], mp_mbBad = False, mnFirstKFid = 0, mnFound = 1, mnVisible = 1,
      mnFuseCandidateForKF = 0\<rparr>"

definition blank_Store :: Store where
  "blank_Store =
     \<lparr>kfs = (\<lambda>k. blank_KeyFrame), mps = (\<lambda>p. blank_MapPoint), mspKeyFrames = [],
      mspMapPoints = [], next_MapPoint = 0\<rparr>"

text \<open>
  A stereo mapper whose current key frame (address 1) has id 10 and whose recent-added
  list holds five points: point 1 is bad; point 2 was found once in five frames; point 3
  was found once in four frames and is one key frame old; point 4 is two key frames old
  with two observations; point 5 is three key frames old with four observations.
\<close>

definition culling_example :: LocalMapping where
  "culling_example =
     (LocalMapping_init False
        (blank_Store\<lparr>
           kfs := (\<lambda>k. blank_KeyFrame)(1 := blank_KeyFrame\<lparr>mnId := 10\<rparr>),
           mps := (\<lambda>p. blank_MapPoint)
             (1 := blank_MapPoint\<lparr>mp_mbBad := True\<rparr>,
              2 := blank_MapPoint\<lparr>mnFirstKFid := 9, mnFound := 1, mnVisible := 5\<rparr>,
              3 := blank_MapPoint\<lparr>mnFirstKFid := 9, mnFound := 1, mnVisible := 4\<rparr>,
              4 := blank_MapPoint\<lparr>mnFirstKFid := 8, mObservations := [(1, 0), (2, 0)]\<rparr>,
              5 := blank_MapPoint\<lparr>mnFirstKFid := 7,
                     mObservations := [(1, 1), (2, 1), (3, 1), (4, 1)]\<rparr>)\<rparr>))
     \<lparr>mbFinished := False, mpCurrentKeyFrame := 1, mlpRecentAddedMapPoints := [1, 2, 3, 4, 5]\<rparr>"

text \<open>
  A stereo camera with \<open>mbf = 1\<close> and a stereo key point at pixel \<open>(0, 0)\<close>, octave 0,
  with right-image coordinate \<open>3/2\<close>.
\<close>

definition stereo_Camera :: Camera where
  "stereo_Camera = blank_Camera\<lparr>mb := 1, mbf := 1\<rparr>"

definition origin_KeyPoint :: KeyPoint where
  "origin_KeyPoint = \<lparr>pt_x = 0, pt_y = 0, octave = 0\<rparr>"

text \<open>
  Two monocular key frames with one feature each: the first at the origin looks at the
  point \<open>(0, 0, 1)\<close> through pixel \<open>(0, 0)\<close>; the second stands at
  \<open>(-3/4, 0, 0)\<close> and sees the same point through pixel \<open>(3/4, 0)\<close>.
\<close>

definition front_KeyFrame :: KeyFrame where
  "front_KeyFrame = blank_KeyFrame\<lparr>mvKeysUn := [origin_KeyPoint], mvuRight := [-1],
     mvDepth := [-1], mvpMapPoints := [None]\<rparr>"

definition side_KeyFrame :: KeyFrame where
  "side_KeyFrame = blank_KeyFrame\<lparr>mnId := 1,
     mvKeysUn := [\<lparr>pt_x = 3 / 4, pt_y = 0, octave = 0\<rparr>], mvuRight := [-1],
     mvDepth := [-1], mvpMapPoints := [None],
     camera := blank_Camera\<lparr>tcw := (3 / 4, 0, 0), Ow := (- 3 / 4, 0, 0)\<rparr>\<rparr>"

text \<open>
  Collaborators that do nothing: the matcher finds no match and fuses nothing, the
  optimizer leaves the store as it is, the decomposition yields the homogeneous point
  \<open>(0, 0, 1, 1)\<close>, the covisibility lists stay as they are, and the coordinates in a
  camera frame are the exact ones, rounded to \<^verbatim>\<open>float\<close>.
\<close>

definition quiet_Collaborators :: Collaborators where
  "quiet_Collaborators =
     \<lparr>SearchForTriangulation = (\<lambda>st pKF1 pKF2. []),
      Fuse = (\<lambda>pKF vp st. st),
      LocalBundleAdjustment = (\<lambda>pKF st. st),
      SVD_vt_row3 = (\<lambda>A. (0, 0, 1, 1)),
      UnprojectStereo = (\<lambda>kf idx. (0, 0, 1)),
      ComputeSceneMedianDepth = (\<lambda>st pKF. 1),
      UpdateConnections = (\<lambda>st pKF k. mvpOrderedConnectedKeyFrames (kfs st k)),
      CameraCoordinates =
        (\<lambda>c X. (to_float (Finite (dot3 (row0 (Rcw c)) X + at0 (tcw c))),
                 to_float (Finite (dot3 (row1 (Rcw c)) X + at1 (tcw c))),
                 to_float (Finite (dot3 (row2 (Rcw c)) X + at2 (tcw c)))))\<rparr>"

text \<open>
  A neighbour like the second key frame whose key point lies three pixels off the
  projection of \<open>(0, 0, 1)\<close>, and a monocular mapper whose current key frame (address
  1) is the first key frame and whose key frame 2 is this neighbour.
\<close>

definition off_KeyFrame :: KeyFrame where
  "off_KeyFrame = side_KeyFrame\<lparr>mvKeysUn := [\<lparr>pt_x = 3 / 4, pt_y = 3, octave = 0\<rparr>]\<rparr>"

definition triangulation_example :: LocalMapping where
  "triangulation_example =
     (LocalMapping_init True
        (blank_Store\<lparr>kfs := (\<lambda>k. blank_KeyFrame)(1 := front_KeyFrame, 2 := off_KeyFrame)\<rparr>))
     \<lparr>mbFinished := False, mpCurrentKeyFrame := 1\<rparr>"





text \<open>
  A stereo map around the current key frame (address 1). Map point 1 is observed in slot
  0 of the key frames 2 to 8, map point 2 in slot 1 of the key frames 2 and 3; every key
  point is at octave 0. Key frame 2 holds both points, the key frames 6, 7 and 8 hold
  point 1 only; the depth stored in key frame 7 is 0, and key frame 8 is the root. Key
  frame 9, with id 11, holds no point and is not in the map yet.
\<close>

definition observer_KeyFrame :: "nat \<Rightarrow> KeyFrame" where
  "observer_KeyFrame n =
     blank_KeyFrame\<lparr>mnId := n, mvpMapPoints := [Some 1],
       mvKeysUn := [origin_KeyPoint, origin_KeyPoint], mvuRight := [1, 1], mvDepth := [1, 1]\<rparr>"

definition redundancy_Store :: Store where
  "redundancy_Store =
     blank_Store\<lparr>
       kfs := (\<lambda>k. blank_KeyFrame)
         (1 := blank_KeyFrame\<lparr>mnId := 10, mvpOrderedConnectedKeyFrames := [2, 6, 7, 8]\<rparr>,
          2 := (observer_KeyFrame 5)\<lparr>mvpMapPoints := [Some 1, Some 2, None],
                 mvKeysUn := [origin_KeyPoint, origin_KeyPoint, origin_KeyPoint],
                 mvuRight := [1, 1, -1], mvDepth := [1, 1, -1]\<rparr>,
          3 := (observer_KeyFrame 1)\<lparr>mvpMapPoints := [Some 1, Some 2]\<rparr>,
          4 := observer_KeyFrame 2,
          5 := observer_KeyFrame 3,
          6 := observer_KeyFrame 6,
          7 := (observer_KeyFrame 7)\<lparr>mvDepth := [0, 1]\<rparr>,
          8 := observer_KeyFrame 0,
          9 := blank_KeyFrame\<lparr>mnId := 11\<rparr>),
       mps := (\<lambda>p. blank_MapPoint)
         (1 := blank_MapPoint\<lparr>mObservations :=
                 [(2, 0), (3, 0), (4, 0), (5, 0), (6, 0), (7, 0), (8, 0)]\<rparr>,
          2 := blank_MapPoint\<lparr>mObservations := [(2, 1), (3, 1)]\<rparr>),
       mspKeyFrames := [1, 2, 3, 4, 5, 6, 7, 8],
       mspMapPoints := [1, 2]\<rparr>"

definition redundancy_example :: LocalMapping where
  "redundancy_example =
     (LocalMapping_init False redundancy_Store)\<lparr>mbFinished := False, mpCurrentKeyFrame := 1\<rparr>"

text \<open>
  Three running mappers with no other thread calling: one that is idle over the example
  map, one that has key frame 9 waiting over the example map, and one that has key frame
  9 waiting over an empty map.
\<close>

definition idle_example :: LocalMapping where
  "idle_example = redundancy_example"

definition busy_example :: LocalMapping where
  "busy_example = redundancy_example\<lparr>mlNewKeyFrames := [9]\<rparr>"

definition first_example :: LocalMapping where
  "first_example =
     (LocalMapping_init False
        (blank_Store\<lparr>kfs := (\<lambda>k. blank_KeyFrame)(9 := blank_KeyFrame\<lparr>mnId := 11\<rparr>)\<rparr>))
     \<lparr>mbFinished := False, mlNewKeyFrames := [9]\<rparr>"



section \<open>Properties of the control surface\<close>

text \<open>
  C9. \<^verbatim>\<open>Stop\<close> sets the stopped flag and returns true exactly when a stop was
  requested and the not-stop flag is clear; otherwise it returns false and changes
  nothing. \<^verbatim>\<open>SetNotStop(true)\<close> returns false, changing nothing, exactly when the
  loop is already stopped; in every other case \<^verbatim>\<open>SetNotStop(flag)\<close> stores the
  flag and returns true.
\<close>

theorem Stop_SetNotStop_contract:
  "(fst (Stop s) \<longleftrightarrow> mbStopRequested s \<and> \<not> mbNotStop s)
   \<and> snd (Stop s) = (if mbStopRequested s \<and> \<not> mbNotStop s then s\<lparr>mbStopped := True\<rparr> else s)
   \<and> (fst (SetNotStop flag s) \<longleftrightarrow> \<not> (flag \<and> mbStopped s))
   \<and> (SetNotStop True s = (False, s) \<longleftrightarrow> mbStopped s)
   \<and> snd (SetNotStop flag s) = (if flag \<and> mbStopped s then s else s\<lparr>mbNotStop := flag\<rparr>)"
  by (simp add: Stop_def SetNotStop_def)

text \<open>
  C10. Once \<^verbatim>\<open>SetFinish\<close> has run, the finished and the stopped flag are set and
  \<^verbatim>\<open>Release\<close> changes nothing; in any finished state it changes nothing; and in a
  state that is not finished it clears the queue and both stop flags.
\<close>

theorem Release_after_SetFinish:
  "mbFinished (SetFinish s) \<and> mbStopped (SetFinish s)
   \<and> Release (SetFinish s) = SetFinish s
   \<and> (mbFinished s \<longrightarrow> Release s = s)
   \<and> (\<not> mbFinished s \<longrightarrow>
        mlNewKeyFrames (Release s) = [] \<and> \<not> mbStopped (Release s)
        \<and> \<not> mbStopRequested (Release s))"
  by (simp add: Release_def SetFinish_def)

theorem Release_after_SetFinish_witness:
  "mbFinished (LocalMapping_init False blank_Store)
   \<and> Release (LocalMapping_init False blank_Store) = LocalMapping_init False blank_Store
   \<and> \<not> mbFinished ((LocalMapping_init False blank_Store)
          \<lparr>mbFinished := False, mbStopped := True, mbStopRequested := True,
           mlNewKeyFrames := [1, 2]\<rparr>)
   \<and> mlNewKeyFrames (Release ((LocalMapping_init False blank_Store)
          \<lparr>mbFinished := False, mbStopped := True, mbStopRequested := True,
           mlNewKeyFrames := [1, 2]\<rparr>)) = []
   \<and> \<not> mbStopped (Release ((LocalMapping_init False blank_Store)
          \<lparr>mbFinished := False, mbStopped := True, mbStopRequested := True,
           mlNewKeyFrames := [1, 2]\<rparr>))
   \<and> \<not> mbStopRequested (Release ((LocalMapping_init False blank_Store)
          \<lparr>mbFinished := False, mbStopped := True, mbStopRequested := True,
           mlNewKeyFrames := [1, 2]\<rparr>))"
  using Release_after_SetFinish [of "LocalMapping_init False blank_Store"]
    Release_after_SetFinish [of "(LocalMapping_init False blank_Store)
          \<lparr>mbFinished := False, mbStopped := True, mbStopRequested := True,
           mlNewKeyFrames := [1, 2]\<rparr>"]
  by (simp add: LocalMapping_init_def)

section \<open>Properties of map point culling\<close>

lemma int_cast_small: "n < 2 ^ 31 \<Longrightarrow> int_cast n = int n"
  by (simp add: int_cast_def)

lemma SetBadFlag_reads [simp]:
  "GetFoundRatio (MapPoint_SetBadFlag p st) q = GetFoundRatio st q"
  "Observations (MapPoint_SetBadFlag p st) q = Observations st q"
  "mnFirstKFid (mps (MapPoint_SetBadFlag p st) q) = mnFirstKFid (mps st q)"
  "MapPoint_isBad (MapPoint_SetBadFlag p st) q = (q = p \<or> MapPoint_isBad st q)"
  by (simp_all add: MapPoint_SetBadFlag_def GetFoundRatio_def Observations_def MapPoint_isBad_def)

lemma verdict_SetBadFlag_other:
  "q \<noteq> p \<Longrightarrow> culling_verdict b N (MapPoint_SetBadFlag p st) q = culling_verdict b N st q"
  by (simp add: culling_verdict_def Let_def)

lemma verdict_SetBadFlag_same:
  "culling_verdict b N (MapPoint_SetBadFlag p st) p = Already_bad"
  by (simp add: culling_verdict_def Let_def)

lemma bad_after_SetBadFlag:
  assumes "culled (culling_verdict b N st p)"
  shows "bad_after b N ps (MapPoint_SetBadFlag p st) = bad_after b N (p # ps) st"
proof -
  have "\<And>q. (mps (MapPoint_SetBadFlag p st) q)\<lparr>mp_mbBad := mp_mbBad (mps (MapPoint_SetBadFlag p st) q)
                 \<or> (q \<in> set ps \<and> culled (culling_verdict b N (MapPoint_SetBadFlag p st) q))\<rparr>
           = (mps st q)\<lparr>mp_mbBad := mp_mbBad (mps st q)
                 \<or> (q \<in> set (p # ps) \<and> culled (culling_verdict b N st q))\<rparr>"
  proof -
    fix q
    show "?thesis q"
    proof (cases "q = p")
      case True
      then show ?thesis using assms by (simp add: MapPoint_SetBadFlag_def)
    next
      case False
      then show ?thesis
        by (simp add: verdict_SetBadFlag_other) (simp add: MapPoint_SetBadFlag_def)
    qed
  qed
  then show ?thesis
    unfolding bad_after_def by (simp add: MapPoint_SetBadFlag_def fun_eq_iff)
qed

lemma bad_after_keep:
  assumes "\<not> culled (culling_verdict b N st p)"
  shows "bad_after b N (p # ps) st = bad_after b N ps st"
proof -
  have "\<And>q. (q \<in> set (p # ps) \<and> culled (culling_verdict b N st q))
           = (q \<in> set ps \<and> culled (culling_verdict b N st q))"
    using assms by auto
  then show ?thesis unfolding bad_after_def by simp
qed

lemma MapPointCulling_loop_spec:
  assumes "N < 2 ^ 31" and "\<forall>p \<in> set ps. mnFirstKFid (mps st p) < 2 ^ 31"
  shows "MapPointCulling_loop N (if b then 2 else 3) ps st =
           (filter (\<lambda>p. culling_verdict b N st p = Stay) ps, bad_after b N ps st)"
  using assms
proof (induction ps arbitrary: st)
  case Nil
  show ?case by (simp add: bad_after_def)
next
  case (Cons p ps)
  have c: "int_cast N = int N" "int_cast (mnFirstKFid (mps st p)) = int (mnFirstKFid (mps st p))"
    using Cons.prems by (simp_all add: int_cast_small)
  let ?v = "culling_verdict b N st p"
  have rest: "\<forall>q \<in> set ps. mnFirstKFid (mps st q) < 2 ^ 31" using Cons.prems by simp
  have rest': "\<forall>q \<in> set ps. mnFirstKFid (mps (MapPoint_SetBadFlag p st) q) < 2 ^ 31"
    using rest by simp
  consider (bad) "?v = Already_bad" | (ratio) "?v = Cull_found_ratio" | (obs) "?v = Cull_observations"
    | (grad) "?v = Graduate" | (stay) "?v = Stay"
    by (cases ?v) auto
  then show ?case
  proof cases
    case bad
    then have b1: "MapPoint_isBad st p"
      by (auto simp: culling_verdict_def Let_def split: if_splits)
    have "bad_after b N (p # ps) st = bad_after b N ps st"
      by (rule bad_after_keep) (simp add: bad culled_def)
    then show ?thesis using b1 bad Cons.IH[OF Cons.prems(1) rest] by simp
  next
    case grad
    have "bad_after b N (p # ps) st = bad_after b N ps st"
      by (rule bad_after_keep) (simp add: grad culled_def)
    moreover have "\<not> MapPoint_isBad st p" "\<not> GetFoundRatio st p < 0.25"
      "\<not> (int N - int (mnFirstKFid (mps st p)) \<ge> 2 \<and> Observations st p \<le> (if b then 2 else 3))"
      "int N - int (mnFirstKFid (mps st p)) \<ge> 3"
      using grad by (auto simp: culling_verdict_def Let_def split: if_splits)
    ultimately show ?thesis using grad c Cons.IH[OF Cons.prems(1) rest] by (cases b; auto)
  next
    case stay
    have "bad_after b N (p # ps) st = bad_after b N ps st"
      by (rule bad_after_keep) (simp add: stay culled_def)
    moreover have "\<not> MapPoint_isBad st p" "\<not> GetFoundRatio st p < 0.25"
      "\<not> (int N - int (mnFirstKFid (mps st p)) \<ge> 2 \<and> Observations st p \<le> (if b then 2 else 3))"
      "\<not> int N - int (mnFirstKFid (mps st p)) \<ge> 3"
      using stay by (auto simp: culling_verdict_def Let_def split: if_splits)
    ultimately show ?thesis using stay c Cons.IH[OF Cons.prems(1) rest] by (cases b; auto)
  next
    case ratio
    have f: "\<not> MapPoint_isBad st p" "GetFoundRatio st p < 0.25"
      using ratio by (auto simp: culling_verdict_def Let_def split: if_splits)
    have filt: "filter (\<lambda>q. culling_verdict b N (MapPoint_SetBadFlag p st) q = Stay) ps
               = filter (\<lambda>q. culling_verdict b N st q = Stay) ps"
      by (rule filter_cong[OF refl]) (metis verdict_SetBadFlag_other verdict_SetBadFlag_same ratio verdict.distinct)
    have "bad_after b N ps (MapPoint_SetBadFlag p st) = bad_after b N (p # ps) st"
      by (rule bad_after_SetBadFlag) (simp add: ratio culled_def)
    then show ?thesis using f ratio filt Cons.IH[OF Cons.prems(1) rest'] by simp
  next
    case obs
    have f: "\<not> MapPoint_isBad st p" "\<not> GetFoundRatio st p < 0.25"
      "int N - int (mnFirstKFid (mps st p)) \<ge> 2 \<and> Observations st p \<le> (if b then 2 else 3)"
      using obs by (auto simp: culling_verdict_def Let_def split: if_splits)
    have filt: "filter (\<lambda>q. culling_verdict b N (MapPoint_SetBadFlag p st) q = Stay) ps
               = filter (\<lambda>q. culling_verdict b N st q = Stay) ps"
      by (rule filter_cong[OF refl]) (metis verdict_SetBadFlag_other verdict_SetBadFlag_same obs verdict.distinct)
    have "bad_after b N ps (MapPoint_SetBadFlag p st) = bad_after b N (p # ps) st"
      by (rule bad_after_SetBadFlag) (simp add: obs culled_def)
    then show ?thesis using f obs c filt Cons.IH[OF Cons.prems(1) rest'] by (cases b; auto)
  qed
qed

text \<open>
  C2. With \<open>N\<close> the id of the current key frame and \<open>N0\<close> the first key frame id
  of a point (ids below \<open>2^31\<close>, where the \<^verbatim>\<open>(int)\<close> casts keep the value),
  \<^verbatim>\<open>MapPointCulling\<close> applies the decision sequence of the specification to every
  point of the recent-added list: the list that is left holds exactly the points whose
  verdict is to stay, the points marked bad are exactly those culled by the found-ratio
  rule or by the observation rule, and nothing else changes. A found ratio of exactly
  0.25 is never culled by the ratio rule.
\<close>

theorem MapPointCulling_decision_sequence:
  assumes "mnId (kfs (store s) (mpCurrentKeyFrame s)) < 2 ^ 31"
    and "\<forall>p \<in> set (mlpRecentAddedMapPoints s). mnFirstKFid (mps (store s) p) < 2 ^ 31"
  shows "(let N = mnId (kfs (store s) (mpCurrentKeyFrame s));
              v = culling_verdict (mbMonocular s) N (store s)
          in MapPointCulling s =
               s\<lparr>mlpRecentAddedMapPoints := filter (\<lambda>p. v p = Stay) (mlpRecentAddedMapPoints s),
                 store := (store s)\<lparr>mps := (\<lambda>q. (mps (store s) q)
                    \<lparr>mp_mbBad := mp_mbBad (mps (store s) q)
                        \<or> (q \<in> set (mlpRecentAddedMapPoints s) \<and> culled (v q))\<rparr>)\<rparr>\<rparr>
             \<and> (\<forall>p. GetFoundRatio (store s) p = 1 / 4 \<longrightarrow> v p \<noteq> Cull_found_ratio))"
proof -
  have "GetFoundRatio (store s) p = 1 / 4 \<longrightarrow>
          culling_verdict (mbMonocular s) (mnId (kfs (store s) (mpCurrentKeyFrame s))) (store s) p
            \<noteq> Cull_found_ratio" for p
    by (simp add: culling_verdict_def Let_def)
  then show ?thesis
    using MapPointCulling_loop_spec[OF assms, of "mbMonocular s"]
    by (simp add: MapPointCulling_def Let_def bad_after_def)
qed

theorem MapPointCulling_decision_sequence_witness:
  "mnId (kfs (store culling_example) (mpCurrentKeyFrame culling_example)) < 2 ^ 31
   \<and> list_all (\<lambda>p. mnFirstKFid (mps (store culling_example) p) < 2 ^ 31)
        (mlpRecentAddedMapPoints culling_example)
   \<and> map (culling_verdict False 10 (store culling_example)) [1, 2, 3, 4, 5]
       = [Already_bad, Cull_found_ratio, Stay, Cull_observations, Graduate]
   \<and> GetFoundRatio (store culling_example) 3 = 1 / 4
   \<and> mlpRecentAddedMapPoints (MapPointCulling culling_example) = [3]
   \<and> map (MapPoint_isBad (store (MapPointCulling culling_example))) [1, 2, 3, 4, 5]
       = [True, True, False, True, False]"
proof -
  have h1: "mnId (kfs (store culling_example) (mpCurrentKeyFrame culling_example)) < 2 ^ 31"
    by (simp add: culling_example_def LocalMapping_init_def blank_Store_def blank_KeyFrame_def)
  have h2: "\<forall>p \<in> set (mlpRecentAddedMapPoints culling_example).
              mnFirstKFid (mps (store culling_example) p) < 2 ^ 31"
    by (simp add: culling_example_def LocalMapping_init_def blank_Store_def blank_MapPoint_def)
  have v: "map (culling_verdict False 10 (store culling_example)) [1, 2, 3, 4, 5]
       = [Already_bad, Cull_found_ratio, Stay, Cull_observations, Graduate]"
    by (simp add: culling_example_def LocalMapping_init_def blank_Store_def blank_MapPoint_def
        culling_verdict_def MapPoint_isBad_def GetFoundRatio_def Observations_def)
  have r: "GetFoundRatio (store culling_example) 3 = 1 / 4"
    by (simp add: culling_example_def LocalMapping_init_def blank_Store_def blank_MapPoint_def
        GetFoundRatio_def)
  have N: "mnId (kfs (store culling_example) (mpCurrentKeyFrame culling_example)) = 10"
     "mbMonocular culling_example = False"
     "mlpRecentAddedMapPoints culling_example = [1, 2, 3, 4, 5]"
    by (simp_all add: culling_example_def LocalMapping_init_def blank_Store_def blank_KeyFrame_def)
  have bad: "map (\<lambda>p. mp_mbBad (mps (store culling_example) p)) [1, 2, 3, 4, 5]
       = [True, False, False, False, False]"
    by (simp add: culling_example_def LocalMapping_init_def blank_Store_def blank_MapPoint_def)
  show ?thesis
    using MapPointCulling_decision_sequence[OF h1 h2] h1 h2 v r bad
    by (simp add: N Let_def culled_def MapPoint_isBad_def list_all_iff)
qed

section \<open>Properties of the triangulation tests\<close>

subsection \<open>Rounding\<close>

lemma pow2_powr: "pow2 k = 2 powr (of_int k)"
  by (simp add: pow2_def powr_int)

lemma pow2_pos [simp]: "0 < pow2 k"
  by (simp add: pow2_powr)

lemma pow2_abs [simp]: "\<bar>pow2 k\<bar> = pow2 k"
  using pow2_pos[of k] by linarith

lemma pow2_add: "pow2 (a + b) = pow2 a * pow2 b"
  by (simp add: pow2_powr powr_add)

lemma pow2_mono: "a \<le> b \<Longrightarrow> pow2 a \<le> pow2 b"
  by (simp add: pow2_powr)

lemma rne_of_int [simp]: "rne (of_int n) = n"
  by (simp add: rne_def)

lemma rne_bounds: "\<lfloor>x\<rfloor> \<le> rne x \<and> rne x \<le> \<lceil>x\<rceil>"
proof -
  have "\<lfloor>x\<rfloor> + 1 \<le> \<lceil>x\<rceil>" if "of_int \<lfloor>x\<rfloor> \<noteq> x"
    using that by (metis ceiling_altdef zle_add1_eq_le order_refl)
  moreover have "of_int \<lfloor>x\<rfloor> \<noteq> x" if "\<not> x - of_int \<lfloor>x\<rfloor> < 1 / 2"
    using that by auto
  ultimately show ?thesis
    by (auto simp: rne_def Let_def)
qed

lemma rne_abs_le:
  assumes "\<bar>x\<bar> \<le> of_int N"
  shows "\<bar>rne x\<bar> \<le> N"
proof -
  have "rne x \<le> \<lceil>x\<rceil>" "\<lfloor>x\<rfloor> \<le> rne x" using rne_bounds[of x] by simp_all
  moreover have "\<lceil>x\<rceil> \<le> N" using assms by (simp add: ceiling_le_iff abs_le_iff)
  moreover have "- N \<le> \<lfloor>x\<rfloor>" using assms by (simp add: le_floor_iff abs_le_iff)
  ultimately show ?thesis by linarith
qed

lemma exponent_binade:
  assumes "pow2 k \<le> \<bar>x\<bar>" and "\<bar>x\<bar> < pow2 (k + 1)"
  shows "exponent f x = max (emin f) k"
proof -
  have pos: "0 < \<bar>x\<bar>" using assms(1) pow2_pos[of k] by linarith
  have "\<lfloor>log 2 \<bar>x\<bar>\<rfloor> = k"
    using assms pos by (subst floor_log_eq_powr_iff) (simp_all add: pow2_powr)
  then show ?thesis by (simp add: exponent_def)
qed

lemma largest_ge:
  assumes "0 < precision f"
  shows "pow2 (emax f) \<le> largest f"
proof -
  have "pow2 (1 - int (precision f)) \<le> pow2 0"
    using assms by (intro pow2_mono) simp
  then have "1 \<le> 2 - pow2 (1 - int (precision f))" by (simp add: pow2_def)
  then have "1 * pow2 (emax f) \<le> (2 - pow2 (1 - int (precision f))) * pow2 (emax f)"
    by (intro mult_right_mono) (simp_all add: less_imp_le)
  then show ?thesis by (simp add: largest_def)
qed

text \<open>
  A number of the normal range, in the binade of \<open>2^k\<close>, is rounded to a multiple of
  \<open>2^(k - p + 1)\<close> and does not overflow.
\<close>

lemma round_to_normal:
  assumes lo: "pow2 k \<le> \<bar>x\<bar>" and hi: "\<bar>x\<bar> < pow2 (k + 1)"
    and k: "emin f \<le> k" "k < emax f" and p: "0 < precision f"
  shows "round_to f x =
           Finite (of_int (rne (x / pow2 (k - int (precision f) + 1)))
                   * pow2 (k - int (precision f) + 1))"
proof -
  let ?u = "pow2 (k - int (precision f) + 1)"
  let ?n = "rne (x / ?u)"
  have u: "0 < ?u" by simp
  have x0: "x \<noteq> 0" using lo pow2_pos[of k] by linarith
  have e: "exponent f x = k" using exponent_binade[OF lo hi] k by simp
  have top: "pow2 (k + 1) = pow2 (int (precision f)) * ?u"
    by (simp add: pow2_add[symmetric])
  have "\<bar>x\<bar> \<le> pow2 (int (precision f)) * ?u" using hi top by linarith
  then have "\<bar>x\<bar> / ?u \<le> pow2 (int (precision f))"
    using u by (simp only: pos_divide_le_eq)
  moreover have "\<bar>x / ?u\<bar> = \<bar>x\<bar> / ?u" by simp
  moreover have "pow2 (int (precision f)) = of_int (2 ^ precision f)" by (simp add: pow2_def)
  ultimately have "\<bar>x / ?u\<bar> \<le> of_int (2 ^ precision f)" by simp
  then have "\<bar>?n\<bar> \<le> 2 ^ precision f" by (rule rne_abs_le)
  then have "real_of_int \<bar>?n\<bar> \<le> real_of_int (2 ^ precision f)" by (simp only: of_int_le_iff)
  then have "\<bar>real_of_int ?n\<bar> \<le> pow2 (int (precision f))" by (simp add: pow2_def)
  then have "\<bar>real_of_int ?n\<bar> * ?u \<le> pow2 (int (precision f)) * ?u"
    using u by (intro mult_right_mono) (simp_all add: less_imp_le)
  moreover have "\<bar>real_of_int ?n * ?u\<bar> = \<bar>real_of_int ?n\<bar> * ?u"
    by (simp only: abs_mult pow2_abs)
  ultimately have "\<bar>real_of_int ?n * ?u\<bar> \<le> pow2 (k + 1)" using top by simp
  also have "\<dots> \<le> pow2 (emax f)" using k by (intro pow2_mono) simp
  also have "\<dots> \<le> largest f" by (rule largest_ge[OF p])
  finally have nl: "\<not> largest f < \<bar>real_of_int ?n * ?u\<bar>" by (simp only: not_less)
  have "round_to f x =
          (if largest f < \<bar>real_of_int ?n * ?u\<bar> then (if 0 < x then PlusInf else MinusInf)
           else Finite (real_of_int ?n * ?u))"
    using x0 by (simp only: round_to_def e Let_def if_False)
  then show ?thesis using nl by (simp only: if_False)
qed

lemmas round_to_binades =
  round_to_normal[where k = "-3"] round_to_normal[where k = "-2"] round_to_normal[where k = "-1"]
  round_to_normal[where k = 0] round_to_normal[where k = 1] round_to_normal[where k = 2]
  round_to_normal[where k = 3]

lemma round_to_0 [simp]: "round_to f 0 = Finite 0"
  by (simp add: round_to_def)

lemmas fp_defs =
  fp_sub_def fp_gt_def round_to_binades binary32_def binary64_def pow2_def rne_def

subsection \<open>The reprojection tests\<close>

lemmas error_defs =
  error_exceeds_def sq_error_stereo_def sq_error_mono_def project_u_def project_v_def
  inverse_depth_def chi2_bound_def sigma2_def

lemma reprojection1_fails_exceeds:
  "reprojection1_fails c1 kp1 ur x y z \<longleftrightarrow> error_exceeds 7.8 (mbf c1) c1 kp1 ur (x, y, z)"
  by (simp add: reprojection1_fails_def error_defs Let_def)

lemma reprojection2_fails_exceeds:
  "reprojection2_fails c1 c2 kp2 ur x y z \<longleftrightarrow> error_exceeds 7.8 (mbf c1) c2 kp2 ur (x, y, z)"
  by (simp add: reprojection2_fails_def error_defs Let_def)

lemma accept_x3D_within:
  assumes "accept_x3D E kf1 kf2 idx1 idx2 X"
  shows "\<not> error_exceeds 7.8 (mbf (camera kf1)) (camera kf1) (mvKeysUn kf1 ! idx1)
             (mvuRight kf1 ! idx1) (CameraCoordinates E (camera kf1) X)
         \<and> \<not> error_exceeds 7.8 (mbf (camera kf1)) (camera kf2) (mvKeysUn kf2 ! idx2)
             (mvuRight kf2 ! idx2) (CameraCoordinates E (camera kf2) X)"
proof -
  obtain x1 y1 z1 where P1: "CameraCoordinates E (camera kf1) X = (x1, y1, z1)"
    by (cases "CameraCoordinates E (camera kf1) X")
  obtain x2 y2 z2 where P2: "CameraCoordinates E (camera kf2) X = (x2, y2, z2)"
    by (cases "CameraCoordinates E (camera kf2) X")
  have 1: "\<not> reprojection1_fails (camera kf1) (mvKeysUn kf1 ! idx1) (mvuRight kf1 ! idx1)
             x1 y1 z1"
    using assms unfolding accept_x3D_def Let_def P1 P2 by (auto split: if_splits)
  have 2: "\<not> reprojection2_fails (camera kf1) (camera kf2) (mvKeysUn kf2 ! idx2)
             (mvuRight kf2 ! idx2) x2 y2 z2"
    using assms unfolding accept_x3D_def Let_def P1 P2 by (auto split: if_splits)
  show ?thesis
    using 1 2 unfolding reprojection1_fails_exceeds reprojection2_fails_exceeds P1 P2
    by simp
qed

lemma triangulate_match_within:
  assumes "triangulate_match E kf1 kf2 idx1 idx2 = Some X"
  shows "\<not> error_exceeds 7.8 (mbf (camera kf1)) (camera kf1) (mvKeysUn kf1 ! idx1)
             (mvuRight kf1 ! idx1) (CameraCoordinates E (camera kf1) X)
         \<and> \<not> error_exceeds 7.8 (mbf (camera kf1)) (camera kf2) (mvKeysUn kf2 ! idx2)
             (mvuRight kf2 ! idx2) (CameraCoordinates E (camera kf2) X)"
proof -
  have "accept_x3D E kf1 kf2 idx1 idx2 X"
    using assms by (auto simp: triangulate_match_def split: option.splits if_splits)
  then show ?thesis by (rule accept_x3D_within)
qed

lemma triangulate_match_exceeds:
  assumes "triangulate_x3D E kf1 kf2 idx1 idx2 = Some X"
    and "error_exceeds 7.8 (mbf (camera kf1)) (camera kf1) (mvKeysUn kf1 ! idx1)
             (mvuRight kf1 ! idx1) (CameraCoordinates E (camera kf1) X)
         \<or> error_exceeds 7.8 (mbf (camera kf1)) (camera kf2) (mvKeysUn kf2 ! idx2)
             (mvuRight kf2 ! idx2) (CameraCoordinates E (camera kf2) X)"
  shows "triangulate_match E kf1 kf2 idx1 idx2 = None"
proof (cases "triangulate_match E kf1 kf2 idx1 idx2")
  case None
  then show ?thesis .
next
  case (Some Y)
  then have "Y = X" using assms(1)
    by (auto simp: triangulate_match_def split: option.splits if_splits)
  then show ?thesis using triangulate_match_within[of E kf1 kf2 idx1 idx2 X] Some assms(2)
    by auto
qed

text \<open>
  C3, as the code has it. The reprojection test of either view drops the candidate
  exactly when its squared reprojection error, in single precision, exceeds 5.991
  times the level variance (two residuals) or 7.8 times the level variance (three
  residuals); this is stated for key frames of one rig, which share \<open>bf\<close>. In the
  loop over the matches, a match whose triangulated point exceeds the threshold in one
  of the two views creates no map point, and a match that is triangulated into a map
  point is within the thresholds in both views.
\<close>

theorem reprojection_tests:
  "(reprojection1_fails c1 kp1 ur1 x1 y1 z1 \<longleftrightarrow>
      error_exceeds 7.8 (mbf c1) c1 kp1 ur1 (x1, y1, z1))
   \<and> (mbf c2 = mbf c1 \<longrightarrow>
        (reprojection2_fails c1 c2 kp2 ur2 x2 y2 z2 \<longleftrightarrow>
           error_exceeds 7.8 (mbf c2) c2 kp2 ur2 (x2, y2, z2)))
   \<and> (let kf1 = kfs (store s) (mpCurrentKeyFrame s); kf2 = kfs (store s) pKF2
       in mbf (camera kf2) = mbf (camera kf1)
          \<and> triangulate_x3D E kf1 kf2 idx1 idx2 = Some X
          \<and> (error_exceeds 7.8 (mbf (camera kf1)) (camera kf1) (mvKeysUn kf1 ! idx1)
                (mvuRight kf1 ! idx1) (CameraCoordinates E (camera kf1) X)
              \<or> error_exceeds 7.8 (mbf (camera kf2)) (camera kf2) (mvKeysUn kf2 ! idx2)
                (mvuRight kf2 ! idx2) (CameraCoordinates E (camera kf2) X))
          \<longrightarrow> CreateNewMapPoints_matches E pKF2 ((idx1, idx2) # vMatchedIndices) s
                = CreateNewMapPoints_matches E pKF2 vMatchedIndices s)
   \<and> (mbf (camera k2) = mbf (camera k1) \<and> triangulate_match E k1 k2 i1 i2 = Some Y \<longrightarrow>
        \<not> error_exceeds 7.8 (mbf (camera k1)) (camera k1) (mvKeysUn k1 ! i1)
            (mvuRight k1 ! i1) (CameraCoordinates E (camera k1) Y)
        \<and> \<not> error_exceeds 7.8 (mbf (camera k2)) (camera k2) (mvKeysUn k2 ! i2)
            (mvuRight k2 ! i2) (CameraCoordinates E (camera k2) Y))"
proof -
  have a: "reprojection1_fails c1 kp1 ur1 x1 y1 z1 \<longleftrightarrow>
      error_exceeds 7.8 (mbf c1) c1 kp1 ur1 (x1, y1, z1)"
    by (rule reprojection1_fails_exceeds)
  have b: "mbf c2 = mbf c1 \<longrightarrow>
        (reprojection2_fails c1 c2 kp2 ur2 x2 y2 z2 \<longleftrightarrow>
           error_exceeds 7.8 (mbf c2) c2 kp2 ur2 (x2, y2, z2))"
    by (simp add: reprojection2_fails_exceeds)
  have c: "CreateNewMapPoints_matches E pKF2 ((idx1, idx2) # vMatchedIndices) s
                = CreateNewMapPoints_matches E pKF2 vMatchedIndices s"
    if "mbf (camera (kfs (store s) pKF2)) = mbf (camera (kfs (store s) (mpCurrentKeyFrame s)))"
      and "triangulate_x3D E (kfs (store s) (mpCurrentKeyFrame s)) (kfs (store s) pKF2)
             idx1 idx2 = Some X"
      and "error_exceeds 7.8 (mbf (camera (kfs (store s) (mpCurrentKeyFrame s))))
             (camera (kfs (store s) (mpCurrentKeyFrame s)))
             (mvKeysUn (kfs (store s) (mpCurrentKeyFrame s)) ! idx1)
             (mvuRight (kfs (store s) (mpCurrentKeyFrame s)) ! idx1)
             (CameraCoordinates E (camera (kfs (store s) (mpCurrentKeyFrame s))) X)
           \<or> error_exceeds 7.8 (mbf (camera (kfs (store s) pKF2)))
             (camera (kfs (store s) pKF2)) (mvKeysUn (kfs (store s) pKF2) ! idx2)
             (mvuRight (kfs (store s) pKF2) ! idx2) (CameraCoordinates E (camera (kfs (store s) pKF2)) X)"
  proof -
    have "triangulate_match E (kfs (store s) (mpCurrentKeyFrame s)) (kfs (store s) pKF2)
            idx1 idx2 = None"
      using that by (intro triangulate_match_exceeds[where X = X]) simp_all
    then show ?thesis by simp
  qed
  have d: "mbf (camera k2) = mbf (camera k1) \<and> triangulate_match E k1 k2 i1 i2 = Some Y \<longrightarrow>
        \<not> error_exceeds 7.8 (mbf (camera k1)) (camera k1) (mvKeysUn k1 ! i1)
            (mvuRight k1 ! i1) (CameraCoordinates E (camera k1) Y)
        \<and> \<not> error_exceeds 7.8 (mbf (camera k2)) (camera k2) (mvKeysUn k2 ! i2)
            (mvuRight k2 ! i2) (CameraCoordinates E (camera k2) Y)"
    using triangulate_match_within[of E k1 k2 i1 i2 Y] by auto
  show ?thesis
    using a b c d unfolding Let_def by blast
qed

lemma sqrt_25_16: "sqrt (25 / 16) = 5 / 4"
  by (rule real_sqrt_unique) (simp_all add: power2_eq_square)

lemma sqrt_169_16: "sqrt (169 / 16) = 13 / 4"
  by (rule real_sqrt_unique) (simp_all add: power2_eq_square)

lemmas pair_defs =
  front_KeyFrame_def side_KeyFrame_def off_KeyFrame_def blank_KeyFrame_def blank_Camera_def
  origin_KeyPoint_def quiet_Collaborators_def

lemmas vector_defs =
  mat_vec_def transpose3_def dot3_def norm3_def sub3_def row0_def row1_def row2_def
  at0_def at1_def at2_def

lemma triangulate_front_side:
  "triangulate_match quiet_Collaborators front_KeyFrame side_KeyFrame 0 0 = Some (0, 0, 1)"
proof -
  have x: "triangulate_x3D quiet_Collaborators front_KeyFrame side_KeyFrame 0 0 = Some (0, 0, 1)"
    by (simp add: triangulate_x3D_def candidate_parallax_def ray_parallax_def pair_defs
        stereo_parallax_def vector_defs sqrt_25_16 Let_def)
  have a: "accept_x3D quiet_Collaborators front_KeyFrame side_KeyFrame 0 0 (0, 0, 1)"
    by (simp add: accept_x3D_def pair_defs reprojection1_fails_def reprojection2_fails_def
        vector_defs sqrt_25_16 Let_def fp_defs)
  show ?thesis using x a by (simp add: triangulate_match_def)
qed

lemma triangulate_front_off:
  "triangulate_x3D quiet_Collaborators front_KeyFrame off_KeyFrame 0 0 = Some (0, 0, 1)"
  "CameraCoordinates quiet_Collaborators (camera off_KeyFrame) (0, 0, 1)
     = (Finite (3 / 4), Finite 0, Finite 1)"
  "sq_error_mono (camera off_KeyFrame) (mvKeysUn off_KeyFrame ! 0)
     (Finite (3 / 4)) (Finite 0) (Finite 1) = Finite 9"
  "error_exceeds 7.8 (mbf (camera off_KeyFrame)) (camera off_KeyFrame)
     (mvKeysUn off_KeyFrame ! 0) (mvuRight off_KeyFrame ! 0)
     (Finite (3 / 4), Finite 0, Finite 1)"
proof -
  show "triangulate_x3D quiet_Collaborators front_KeyFrame off_KeyFrame 0 0 = Some (0, 0, 1)"
    by (simp add: triangulate_x3D_def candidate_parallax_def ray_parallax_def pair_defs
        stereo_parallax_def vector_defs sqrt_169_16 Let_def)
  show "CameraCoordinates quiet_Collaborators (camera off_KeyFrame) (0, 0, 1)
     = (Finite (3 / 4), Finite 0, Finite 1)"
    by (simp add: pair_defs vector_defs fp_defs)
  show "sq_error_mono (camera off_KeyFrame) (mvKeysUn off_KeyFrame ! 0)
     (Finite (3 / 4)) (Finite 0) (Finite 1) = Finite 9"
    by (simp add: error_defs pair_defs Let_def fp_defs)
  then show "error_exceeds 7.8 (mbf (camera off_KeyFrame)) (camera off_KeyFrame)
     (mvKeysUn off_KeyFrame ! 0) (mvuRight off_KeyFrame ! 0)
     (Finite (3 / 4), Finite 0, Finite 1)"
    by (simp add: error_exceeds_def chi2_bound_def sigma2_def pair_defs fp_defs)
qed

theorem reprojection_tests_witness:
  "mbf (camera side_KeyFrame) = mbf (camera front_KeyFrame)
   \<and> triangulate_match quiet_Collaborators front_KeyFrame side_KeyFrame 0 0 = Some (0, 0, 1)
   \<and> \<not> error_exceeds 7.8 (mbf (camera front_KeyFrame)) (camera front_KeyFrame)
         (mvKeysUn front_KeyFrame ! 0) (mvuRight front_KeyFrame ! 0)
         (CameraCoordinates quiet_Collaborators (camera front_KeyFrame) (0, 0, 1))
   \<and> \<not> error_exceeds 7.8 (mbf (camera side_KeyFrame)) (camera side_KeyFrame)
         (mvKeysUn side_KeyFrame ! 0) (mvuRight side_KeyFrame ! 0)
         (CameraCoordinates quiet_Collaborators (camera side_KeyFrame) (0, 0, 1))
   \<and> kfs (store triangulation_example) (mpCurrentKeyFrame triangulation_example) = front_KeyFrame
   \<and> kfs (store triangulation_example) 2 = off_KeyFrame
   \<and> mbf (camera off_KeyFrame) = mbf (camera front_KeyFrame)
   \<and> triangulate_x3D quiet_Collaborators front_KeyFrame off_KeyFrame 0 0 = Some (0, 0, 1)
   \<and> sq_error_mono (camera off_KeyFrame) (mvKeysUn off_KeyFrame ! 0)
        (Finite (3 / 4)) (Finite 0) (Finite 1) = Finite 9
   \<and> error_exceeds 7.8 (mbf (camera off_KeyFrame)) (camera off_KeyFrame)
        (mvKeysUn off_KeyFrame ! 0) (mvuRight off_KeyFrame ! 0)
        (CameraCoordinates quiet_Collaborators (camera off_KeyFrame) (0, 0, 1))
   \<and> CreateNewMapPoints_matches quiet_Collaborators 2 [(0, 0)] triangulation_example
       = triangulation_example"
proof -
  have s: "kfs (store triangulation_example) (mpCurrentKeyFrame triangulation_example)
             = front_KeyFrame"
    "kfs (store triangulation_example) 2 = off_KeyFrame"
    by (simp_all add: triangulation_example_def LocalMapping_init_def blank_Store_def)
  have m: "mbf (camera side_KeyFrame) = mbf (camera front_KeyFrame)"
    "mbf (camera off_KeyFrame) = mbf (camera front_KeyFrame)"
    by (simp_all add: pair_defs)
  note t = reprojection_tests [where E = quiet_Collaborators and s = triangulation_example
      and ?pKF2.0 = 2 and ?idx1.0 = 0 and ?idx2.0 = 0 and X = "(0, 0, 1)"
      and vMatchedIndices = "[]"
      and ?k1.0 = front_KeyFrame and ?k2.0 = side_KeyFrame and ?i1.0 = 0 and ?i2.0 = 0
      and Y = "(0, 0, 1)", unfolded Let_def s]
  have skip: "CreateNewMapPoints_matches quiet_Collaborators 2 [(0, 0)] triangulation_example
       = CreateNewMapPoints_matches quiet_Collaborators 2 [] triangulation_example"
    using t[THEN conjunct2, THEN conjunct2, THEN conjunct1] m(2) triangulate_front_off
    by simp
  have within: "\<not> error_exceeds 7.8 (mbf (camera front_KeyFrame)) (camera front_KeyFrame)
         (mvKeysUn front_KeyFrame ! 0) (mvuRight front_KeyFrame ! 0)
         (CameraCoordinates quiet_Collaborators (camera front_KeyFrame) (0, 0, 1))
   \<and> \<not> error_exceeds 7.8 (mbf (camera side_KeyFrame)) (camera side_KeyFrame)
         (mvKeysUn side_KeyFrame ! 0) (mvuRight side_KeyFrame ! 0)
         (CameraCoordinates quiet_Collaborators (camera side_KeyFrame) (0, 0, 1))"
    using t[THEN conjunct2, THEN conjunct2, THEN conjunct2] m(1) triangulate_front_side
    by simp
  show ?thesis
    using s m within skip triangulate_front_side triangulate_front_off by simp
qed

text \<open>
  A stereo view whose squared error is 7.8125 with level variance 1: the error does not
  exceed 7.815 times the variance, and the candidate is dropped.
\<close>

theorem reprojection_threshold_counterexample:
  "sq_error_stereo (mbf stereo_Camera) stereo_Camera origin_KeyPoint (3 / 2)
     (Finite (5 / 2)) (Finite (5 / 4)) (Finite 1) = Finite 7.8125
   \<and> sigma2 stereo_Camera origin_KeyPoint = 1
   \<and> \<not> 7.8125 > 7.815 * sigma2 stereo_Camera origin_KeyPoint
   \<and> \<not> error_exceeds 7.815 (mbf stereo_Camera) stereo_Camera origin_KeyPoint (3 / 2)
          (Finite (5 / 2), Finite (5 / 4), Finite 1)
   \<and> reprojection1_fails stereo_Camera origin_KeyPoint (3 / 2)
        (Finite (5 / 2)) (Finite (5 / 4)) (Finite 1)"
  by (simp add: reprojection1_fails_def error_defs stereo_Camera_def blank_Camera_def
      origin_KeyPoint_def Let_def fp_defs)

text \<open>
  The sums are those of the machine: with residuals \<open>9/4\<close> and \<open>16166308 / 2^24\<close> the
  squared error is below 5.991 as a real number, its value in single precision is
  \<open>6282019 / 2^20\<close>, above the threshold, and the candidate is dropped.
\<close>

lemma reprojection_rounding_example:
  "(9 / 4)\<^sup>2 + (16166308 / 2 ^ 24)\<^sup>2 \<le> (5.991 :: real)"
  "sq_error_mono blank_Camera origin_KeyPoint (Finite (9 / 4)) (Finite (16166308 / 2 ^ 24))
     (Finite 1) = Finite (6282019 / 2 ^ 20)"
  "reprojection1_fails blank_Camera origin_KeyPoint (- 1)
     (Finite (9 / 4)) (Finite (16166308 / 2 ^ 24)) (Finite 1)"
  by (simp_all add: reprojection1_fails_def error_defs blank_Camera_def origin_KeyPoint_def
      Let_def fp_defs power2_eq_square)

subsection \<open>The parallax of stereo views\<close>




lemma stereo_parallax_one_stereo:
  "\<not> (bStereo1 \<and> bStereo2) \<Longrightarrow>
     snd (snd (stereo_parallax r bStereo1 mb1 depth1 bStereo2 mb2 depth2)) =
       least_stereo_cosine r bStereo1 mb1 depth1 bStereo2 mb2 depth2"
  by (auto simp: stereo_parallax_def least_stereo_cosine_def stereo_cosine_def Let_def)



section \<open>Properties of key frame culling\<close>

lemma KeyFrameCulling_observations_ge:
  "KeyFrameCulling_observations st K o_K th obs n \<ge> th
   \<longleftrightarrow> n + int (length (filter (\<lambda>e. fst e \<noteq> K
          \<and> octave (mvKeysUn (kfs st (fst e)) ! snd e) \<le> o_K + 1) obs)) \<ge> th"
proof (induction obs arbitrary: n)
  case Nil
  show ?case by simp
next
  case (Cons e obs)
  obtain k j where e: "e = (k, j)" by (cases e)
  show ?case using Cons.IH[of n] Cons.IH[of "n + 1"] by (auto simp: e)
qed

lemma observed_length:
  assumes "map_of obs K \<noteq> None"
  shows "length (filter (\<lambda>e. fst e \<noteq> K \<and> Q e) obs) < length obs"
proof -
  from assms obtain j where "(K, j) \<in> set obs"
    by (auto dest: map_of_SomeD)
  then have "(K, j) \<in> set obs \<and> \<not> (fst (K, j) \<noteq> K \<and> Q (K, j))" by simp
  then show ?thesis by (metis (mono_tags, lifting) length_filter_less)
qed

lemma redundant_needs_four:
  assumes "IsInKeyFrame st p K"
    and "3 \<le> length (other_observations st K o_K p)"
  shows "Observations st p > 3"
proof -
  have "length (other_observations st K o_K p) < length (mObservations (mps st p))"
    unfolding other_observations_def
    using assms(1) by (intro observed_length) (simp add: IsInKeyFrame_def)
  then show ?thesis using assms(2) by (simp add: Observations_def)
qed

lemma KeyFrameCulling_slots_count:
  assumes "list_all (\<lambda>slot. case slot of None \<Rightarrow> True
                      | Some p \<Rightarrow> MapPoint_isBad st p \<or> IsInKeyFrame st p K) vp"
  shows "KeyFrameCulling_slots b st K i vp (r, m) =
           (r + int (length (filter (\<lambda>e. counted_slot b st K e \<and> redundant_slot st K e)
                       (enumerate i vp))),
            m + int (length (filter (counted_slot b st K) (enumerate i vp))))"
  using assms
proof (induction vp arbitrary: i r m)
  case Nil
  show ?case by simp
next
  case (Cons slot vp)
  have rest: "list_all (\<lambda>slot. case slot of None \<Rightarrow> True
                      | Some p \<Rightarrow> MapPoint_isBad st p \<or> IsInKeyFrame st p K) vp"
    using Cons.prems by simp
  note IH = Cons.IH[OF rest]
  show ?case
  proof (cases slot)
    case None
    then show ?thesis using IH by (simp add: counted_slot_def)
  next
    case (Some p)
    show ?thesis
    proof (cases "counted_slot b st K (i, Some p)")
      case False
      then show ?thesis using IH Some
        by (auto simp: counted_slot_def)
    next
      case True
      then have nb: "\<not> MapPoint_isBad st p"
        and close: "\<not> (\<not> b \<and> (mvDepth (kfs st K) ! i > mThDepth (kfs st K) \<or> mvDepth (kfs st K) ! i < 0))"
        by (auto simp: counted_slot_def)
      have obsK: "IsInKeyFrame st p K" using Cons.prems Some nb by simp
      have red: "redundant_slot st K (i, Some p) \<longleftrightarrow>
                   Observations st p > 3 \<and>
                   KeyFrameCulling_observations st K (octave (mvKeysUn (kfs st K) ! i)) 3
                     (GetObservations st p) 0 \<ge> 3"
        using redundant_needs_four[OF obsK]
        by (auto simp: redundant_slot_def KeyFrameCulling_observations_ge GetObservations_def
            other_observations_def)
      show ?thesis
      proof (cases "redundant_slot st K (i, Some p)")
        case r: True
        then show ?thesis using True nb close red IH Some by (auto simp add: Let_def)
      next
        case r: False
        then show ?thesis using True nb close red IH Some by (auto simp add: Let_def)
      qed
    qed
  qed
qed

lemma KeyFrameCulling_keyframe_spec:
  assumes "observes_its_points st K"
  shows "KeyFrameCulling_keyframe b K st =
           (if mnId (kfs st K) \<noteq> 0
               \<and> real (redundant_points b st K) > 0.9 * real (counted_points b st K)
            then KeyFrame_SetBadFlag K st else st)"
  using KeyFrameCulling_slots_count[OF assms[unfolded observes_its_points_def], of b 0 0 0]
  by (simp add: KeyFrameCulling_keyframe_def GetMapPointMatches_def redundant_points_def
      counted_points_def)

lemma kfs_detach_observations [simp]:
  "kfs (detach_observations K vp st) = kfs st"
  by (induction K vp st rule: detach_observations.induct) (simp_all add: EraseObservation_def)

lemma KeyFrame_SetBadFlag_kfs:
  "kfs (KeyFrame_SetBadFlag K st) = (kfs st)(K := (kfs st K)\<lparr>kf_mbBad := True\<rparr>)"
  by (simp add: KeyFrame_SetBadFlag_def Let_def)

lemma KeyFrameCulling_keyframe_root:
  "mnId (kfs (KeyFrameCulling_keyframe b K st) R) = mnId (kfs st R)
   \<and> (mnId (kfs st R) = 0 \<longrightarrow>
        kf_mbBad (kfs (KeyFrameCulling_keyframe b K st) R) = kf_mbBad (kfs st R))"
  by (auto simp: KeyFrameCulling_keyframe_def KeyFrame_SetBadFlag_kfs split: prod.splits)

lemma KeyFrameCulling_loop_root:
  "mnId (kfs st R) = 0 \<Longrightarrow>
     mnId (kfs (KeyFrameCulling_loop b ks st) R) = 0
     \<and> kf_mbBad (kfs (KeyFrameCulling_loop b ks st) R) = kf_mbBad (kfs st R)"
proof (induction ks arbitrary: st)
  case Nil
  then show ?case by simp
next
  case (Cons K ks)
  have "mnId (kfs (KeyFrameCulling_keyframe b K st) R) = 0"
    using KeyFrameCulling_keyframe_root[of b K st R] Cons.prems by simp
  from Cons.IH[OF this] show ?case
    using KeyFrameCulling_keyframe_root[of b K st R] Cons.prems by simp
qed

lemma map_of_filter_other:
  "K' \<noteq> K \<Longrightarrow> map_of (filter (\<lambda>e. fst e \<noteq> K) xs) K' = map_of xs K'"
  by (induction xs) auto

lemma detach_observations_reads:
  "mp_mbBad (mps (detach_observations K vp st) p) = mp_mbBad (mps st p)
   \<and> (K' \<noteq> K \<longrightarrow> map_of (mObservations (mps (detach_observations K vp st) p)) K'
                     = map_of (mObservations (mps st p)) K')"
proof (induction K vp st rule: detach_observations.induct)
  case (1 pKF st)
  show ?case by simp
next
  case (2 pKF vp st)
  then show ?case by simp
next
  case (3 pKF pMP vp st)
  have "mp_mbBad (mps (EraseObservation pKF pMP st) p) = mp_mbBad (mps st p)"
    "K' \<noteq> pKF \<Longrightarrow> map_of (mObservations (mps (EraseObservation pKF pMP st) p)) K'
                     = map_of (mObservations (mps st p)) K'"
    by (simp_all add: EraseObservation_def map_of_filter_other)
  then show ?case using 3 by simp
qed

lemma KeyFrame_SetBadFlag_mps:
  "mps (KeyFrame_SetBadFlag K st) = mps (detach_observations K (mvpMapPoints (kfs st K)) st)"
  by (simp add: KeyFrame_SetBadFlag_def Let_def)

lemma observes_SetBadFlag_other:
  assumes "K' \<noteq> K"
  shows "observes_its_points (KeyFrame_SetBadFlag K st) K' = observes_its_points st K'"
proof -
  have slots: "mvpMapPoints (kfs (KeyFrame_SetBadFlag K st) K') = mvpMapPoints (kfs st K')"
    using assms by (simp add: KeyFrame_SetBadFlag_kfs)
  have bad: "MapPoint_isBad (KeyFrame_SetBadFlag K st) p = MapPoint_isBad st p" for p
    using detach_observations_reads[of K "mvpMapPoints (kfs st K)" st p K']
    by (simp add: MapPoint_isBad_def KeyFrame_SetBadFlag_mps)
  have obs: "IsInKeyFrame (KeyFrame_SetBadFlag K st) p K' = IsInKeyFrame st p K'" for p
    using detach_observations_reads[of K "mvpMapPoints (kfs st K)" st p K'] assms
    by (simp add: IsInKeyFrame_def KeyFrame_SetBadFlag_mps)
  show ?thesis
    unfolding observes_its_points_def slots list_all_iff
    by (auto simp: bad obs split: option.splits)
qed

lemma observes_culling_step_other:
  "K' \<noteq> K \<Longrightarrow> observes_its_points (culling_step b K st) K' = observes_its_points st K'"
  by (simp add: culling_step_def observes_SetBadFlag_other)

lemma KeyFrameCulling_keyframe_step:
  "observes_its_points st K \<Longrightarrow> KeyFrameCulling_keyframe b K st = culling_step b K st"
  by (simp add: KeyFrameCulling_keyframe_spec culling_step_def culling_rule_def)

lemma KeyFrameCulling_loop_fold:
  assumes "distinct vs" and "\<forall>K \<in> set vs. observes_its_points st K"
  shows "KeyFrameCulling_loop b vs st = fold (culling_step b) vs st"
  using assms
proof (induction vs arbitrary: st)
  case Nil
  show ?case by simp
next
  case (Cons K vs)
  have step: "KeyFrameCulling_keyframe b K st = culling_step b K st"
    using Cons.prems by (simp add: KeyFrameCulling_keyframe_step)
  have rest: "\<forall>K' \<in> set vs. observes_its_points (culling_step b K st) K'"
  proof
    fix K' assume K': "K' \<in> set vs"
    then have "K' \<noteq> K" using Cons.prems(1) by auto
    then show "observes_its_points (culling_step b K st) K'"
      using Cons.prems(2) K' by (simp add: observes_culling_step_other)
  qed
  show ?case using Cons.IH[OF _ rest] Cons.prems(1) by (simp add: step)
qed

lemma kfs_culling_step_other:
  "K' \<noteq> K \<Longrightarrow> kfs (culling_step b K st) K' = kfs st K'"
  by (simp add: culling_step_def KeyFrame_SetBadFlag_kfs)

lemma kfs_fold_culling_step_other:
  "K' \<notin> set vs \<Longrightarrow> kfs (fold (culling_step b) vs st) K' = kfs st K'"
  by (induction vs arbitrary: st) (simp_all add: kfs_culling_step_other)

lemma isBad_culling_step:
  "KeyFrame_isBad (culling_step b K st) K \<longleftrightarrow> KeyFrame_isBad st K \<or> culling_rule b st K"
  by (simp add: culling_step_def KeyFrame_isBad_def KeyFrame_SetBadFlag_kfs)

lemma isBad_fold_culling_step:
  assumes "distinct vs" and "j < length vs"
  shows "KeyFrame_isBad (fold (culling_step b) vs st) (vs ! j) \<longleftrightarrow>
           KeyFrame_isBad st (vs ! j)
           \<or> culling_rule b (fold (culling_step b) (take j vs) st) (vs ! j)"
proof -
  let ?K = "vs ! j"
  have split: "vs = take j vs @ ?K # drop (Suc j) vs"
    using assms(2) by (simp add: id_take_nth_drop)
  have before: "?K \<notin> set (take j vs)" and after: "?K \<notin> set (drop (Suc j) vs)"
  proof -
    have d: "distinct (take j vs @ ?K # drop (Suc j) vs)" using assms(1) split by simp
    show "?K \<notin> set (take j vs)" using d by (simp only: distinct_append) auto
    show "?K \<notin> set (drop (Suc j) vs)" using d by (simp only: distinct_append distinct.simps) auto
  qed
  let ?st = "fold (culling_step b) (take j vs) st"
  have "fold (culling_step b) vs st =
          fold (culling_step b) (drop (Suc j) vs) (culling_step b ?K ?st)"
    by (subst split) simp
  then have "KeyFrame_isBad (fold (culling_step b) vs st) ?K
               = KeyFrame_isBad (culling_step b ?K ?st) ?K"
    using kfs_fold_culling_step_other[OF after] by (simp add: KeyFrame_isBad_def)
  moreover have "KeyFrame_isBad ?st ?K = KeyFrame_isBad st ?K"
    using kfs_fold_culling_step_other[OF before] by (simp add: KeyFrame_isBad_def)
  ultimately show ?thesis by (simp add: isBad_culling_step)
qed

text \<open>
  C4. \<^verbatim>\<open>KeyFrameCulling\<close> walks the covisible key frames of the current key frame
  in order and applies the rule to each: a key frame \<open>K\<close> that observes its points is
  marked bad exactly when it is not the root and strictly more than 90% of its counted
  map points are redundant, a point seen by \<open>K\<close> at octave \<open>o\<close> being redundant when
  at least three observations by other key frames are at an octave of at most
  \<open>o + 1\<close>. Each key frame is judged in the store that the key frames before it have
  left, where the key frames already marked bad observe nothing any more. Key frames
  that are not covisible, and key frames with id 0, keep their flag.
\<close>

theorem KeyFrameCulling_redundancy:
  assumes "distinct (GetVectorCovisibleKeyFrames (store s) (mpCurrentKeyFrame s))"
    and "\<forall>K \<in> set (GetVectorCovisibleKeyFrames (store s) (mpCurrentKeyFrame s)).
           observes_its_points (store s) K"
  shows "(let vs = GetVectorCovisibleKeyFrames (store s) (mpCurrentKeyFrame s);
              step = culling_step (mbMonocular s)
          in KeyFrameCulling s = s\<lparr>store := fold step vs (store s)\<rparr>
             \<and> (\<forall>j < length vs.
                   KeyFrame_isBad (store (KeyFrameCulling s)) (vs ! j) \<longleftrightarrow>
                     KeyFrame_isBad (store s) (vs ! j)
                     \<or> culling_rule (mbMonocular s) (fold step (take j vs) (store s)) (vs ! j))
             \<and> (\<forall>K. K \<notin> set vs \<longrightarrow>
                   KeyFrame_isBad (store (KeyFrameCulling s)) K = KeyFrame_isBad (store s) K)
             \<and> (\<forall>R. mnId (kfs (store s) R) = 0 \<longrightarrow>
                   KeyFrame_isBad (store (KeyFrameCulling s)) R = KeyFrame_isBad (store s) R))"
proof -
  let ?vs = "GetVectorCovisibleKeyFrames (store s) (mpCurrentKeyFrame s)"
  let ?step = "culling_step (mbMonocular s)"
  have pass: "KeyFrameCulling s = s\<lparr>store := fold ?step ?vs (store s)\<rparr>"
    using KeyFrameCulling_loop_fold[OF assms, of "mbMonocular s"]
    by (simp add: KeyFrameCulling_def Let_def)
  have each: "\<forall>j < length ?vs.
                   KeyFrame_isBad (store (KeyFrameCulling s)) (?vs ! j) \<longleftrightarrow>
                     KeyFrame_isBad (store s) (?vs ! j)
                     \<or> culling_rule (mbMonocular s) (fold ?step (take j ?vs) (store s)) (?vs ! j)"
    using isBad_fold_culling_step[OF assms(1)] by (simp add: pass)
  have others: "\<forall>K. K \<notin> set ?vs \<longrightarrow>
                   KeyFrame_isBad (store (KeyFrameCulling s)) K = KeyFrame_isBad (store s) K"
    using kfs_fold_culling_step_other by (simp add: pass KeyFrame_isBad_def)
  have root: "\<forall>R. mnId (kfs (store s) R) = 0 \<longrightarrow>
        KeyFrame_isBad (store (KeyFrameCulling s)) R = KeyFrame_isBad (store s) R"
    using KeyFrameCulling_loop_root[of "store s" _ "mbMonocular s" ?vs]
    by (simp add: KeyFrameCulling_def KeyFrame_isBad_def Let_def)
  show ?thesis using pass each others root by (simp add: Let_def)
qed


lemma redundancy_example_neighbours:
  "GetVectorCovisibleKeyFrames (store redundancy_example) (mpCurrentKeyFrame redundancy_example)
     = [2, 6, 7, 8]"
  by (simp add: redundancy_example_def redundancy_Store_def LocalMapping_init_def
      GetVectorCovisibleKeyFrames_def blank_Store_def blank_KeyFrame_def)

lemma redundancy_example_observed:
  "list_all (observes_its_points (store redundancy_example)) [2, 6, 7, 8]"
  by (simp add: redundancy_Store_def redundancy_example_def LocalMapping_init_def
      blank_Store_def blank_KeyFrame_def blank_MapPoint_def observer_KeyFrame_def
      origin_KeyPoint_def observes_its_points_def MapPoint_isBad_def IsInKeyFrame_def)

lemma redundancy_example_pass:
  "map (KeyFrame_isBad (store (KeyFrameCulling redundancy_example))) [2, 6, 7, 8]
     = [False, True, True, False]"
  by (simp add: redundancy_example_def redundancy_Store_def LocalMapping_init_def
      blank_Store_def blank_KeyFrame_def blank_MapPoint_def
      observer_KeyFrame_def origin_KeyPoint_def MapPoint_isBad_def KeyFrame_isBad_def
      GetMapPointMatches_def Observations_def GetObservations_def KeyFrameCulling_keyframe_def
      KeyFrame_SetBadFlag_def EraseObservation_def KeyFrameCulling_def
      GetVectorCovisibleKeyFrames_def Let_def)

theorem KeyFrameCulling_redundancy_witness:
  "distinct (GetVectorCovisibleKeyFrames (store redundancy_example)
       (mpCurrentKeyFrame redundancy_example))
   \<and> list_all (observes_its_points (store redundancy_example))
        (GetVectorCovisibleKeyFrames (store redundancy_example)
           (mpCurrentKeyFrame redundancy_example))
   \<and> KeyFrameCulling redundancy_example =
       redundancy_example\<lparr>store := fold (culling_step False) [2, 6, 7, 8]
                                     (store redundancy_example)\<rparr>
   \<and> map (KeyFrame_isBad (store redundancy_example)) [2, 6, 7, 8]
       = [False, False, False, False]
   \<and> map (KeyFrame_isBad (store (KeyFrameCulling redundancy_example))) [2, 6, 7, 8]
       = [False, True, True, False]
   \<and> \<not> culling_rule False (store redundancy_example) 2
   \<and> culling_rule False (fold (culling_step False) [2] (store redundancy_example)) 6
   \<and> culling_rule False (fold (culling_step False) [2, 6] (store redundancy_example)) 7
   \<and> \<not> culling_rule False (fold (culling_step False) [2, 6, 7] (store redundancy_example)) 8"
proof -
  let ?s = redundancy_example
  note n = redundancy_example_neighbours
  have h1: "distinct (GetVectorCovisibleKeyFrames (store ?s) (mpCurrentKeyFrame ?s))"
    by (simp add: n)
  have h2: "\<forall>K \<in> set (GetVectorCovisibleKeyFrames (store ?s) (mpCurrentKeyFrame ?s)).
              observes_its_points (store ?s) K"
    using redundancy_example_observed by (simp add: n)
  have m: "mbMonocular ?s = False"
    by (simp add: redundancy_example_def LocalMapping_init_def)
  have before: "map (KeyFrame_isBad (store ?s)) [2, 6, 7, 8] = [False, False, False, False]"
    by (simp add: redundancy_example_def redundancy_Store_def LocalMapping_init_def
        blank_Store_def blank_KeyFrame_def observer_KeyFrame_def KeyFrame_isBad_def)
  note t = KeyFrameCulling_redundancy [OF h1 h2, unfolded Let_def n m]
  have pass: "KeyFrameCulling ?s = ?s\<lparr>store := fold (culling_step False) [2, 6, 7, 8] (store ?s)\<rparr>"
    using t by blast
  have each: "\<And>j. j < 4 \<Longrightarrow> KeyFrame_isBad (store (KeyFrameCulling ?s)) ([2, 6, 7, 8] ! j) \<longleftrightarrow>
                     KeyFrame_isBad (store ?s) ([2, 6, 7, 8] ! j)
                     \<or> culling_rule False (fold (culling_step False) (take j [2, 6, 7, 8]) (store ?s))
                          ([2, 6, 7, 8] ! j)"
  proof -
    fix j :: nat
    assume "j < 4"
    then have "j < length [2, 6, 7, 8 :: nat]" by simp
    then show "?thesis j" using t by blast
  qed
  have r: "\<not> culling_rule False (store ?s) 2"
      "culling_rule False (fold (culling_step False) [2] (store ?s)) 6"
      "culling_rule False (fold (culling_step False) [2, 6] (store ?s)) 7"
      "\<not> culling_rule False (fold (culling_step False) [2, 6, 7] (store ?s)) 8"
    using each[of 0] each[of 1] each[of 2] each[of 3] before redundancy_example_pass
    by simp_all
  show ?thesis
    using h1 h2 pass before redundancy_example_pass r by (simp add: n list_all_iff)
qed

lemma KeyFrameCulling_slots_close:
  "KeyFrameCulling_slots False st K i vp (r, n) =
     (r + int (length (filter (\<lambda>e. close_slot st K e \<and> well_observed st K e) (enumerate i vp))),
      n + int (length (filter (close_slot st K) (enumerate i vp))))"
proof (induction vp arbitrary: i r n)
  case Nil
  show ?case by simp
next
  case (Cons slot vp)
  show ?case
  proof (cases slot)
    case None
    then show ?thesis using Cons.IH by (simp add: close_slot_def)
  next
    case (Some p)
    have w: "well_observed st K (i, Some p) \<longleftrightarrow>
               Observations st p > 3 \<and>
               KeyFrameCulling_observations st K (octave (mvKeysUn (kfs st K) ! i)) 3
                 (GetObservations st p) 0 \<ge> 3"
      by (simp add: well_observed_def KeyFrameCulling_observations_ge GetObservations_def
          other_observations_def)
    show ?thesis
    proof (cases "close_slot st K (i, Some p)")
      case False
      then show ?thesis using Cons.IH Some by (auto simp: close_slot_def)
    next
      case True
      then have c: "\<not> MapPoint_isBad st p"
          "\<not> (mvDepth (kfs st K) ! i > mThDepth (kfs st K) \<or> mvDepth (kfs st K) ! i < 0)"
        by (auto simp: close_slot_def)
      show ?thesis
      proof (cases "well_observed st K (i, Some p)")
        case w1: True
        then show ?thesis using True c w Cons.IH Some by (auto simp add: Let_def)
      next
        case w1: False
        then show ?thesis using True c w Cons.IH Some by (auto simp add: Let_def)
      qed
    qed
  qed
qed

lemma KeyFrameCulling_slots_without_far:
  "KeyFrameCulling_slots False st K i vp cnt =
     KeyFrameCulling_slots False st K i (without_far_slots st K i vp) cnt"
proof (induction vp arbitrary: i cnt)
  case Nil
  show ?case by (simp add: without_far_slots_def)
next
  case (Cons slot vp)
  obtain r m where cnt: "cnt = (r, m)" by (cases cnt)
  have w: "without_far_slots st K i (x # vp) =
             (if mvDepth (kfs st K) ! i > mThDepth (kfs st K) \<or> mvDepth (kfs st K) ! i < 0
              then None else x) # without_far_slots st K (Suc i) vp" for x
    by (simp add: without_far_slots_def)
  show ?case
  proof (cases slot)
    case None
    then show ?thesis using Cons.IH by (simp add: w)
  next
    case (Some p)
    then show ?thesis using Cons.IH by (simp add: w cnt Let_def)
  qed
qed

text \<open>
  C7, as the code has it. In the stereo and RGB-D configuration the slot loop counts
  exactly the close points of the examined key frame: a point whose stored depth is
  negative or greater than the close-point threshold adds nothing to either count (the
  counts are what they would be with these slots empty), a point that is not bad and
  whose stored depth is at least 0 and at most the threshold adds one to the counted
  total, and the key frame is judged on these counts.
\<close>

theorem KeyFrameCulling_close_points:
  "KeyFrameCulling_slots False st K i vp (r, n) =
     (r + int (length (filter (\<lambda>e. close_slot st K e \<and> well_observed st K e) (enumerate i vp))),
      n + int (length (filter (close_slot st K) (enumerate i vp))))
   \<and> KeyFrameCulling_slots False st K i vp (r, n) =
       KeyFrameCulling_slots False st K i (without_far_slots st K i vp) (r, n)
   \<and> (KeyFrame_isBad (KeyFrameCulling_keyframe False K st) K \<longleftrightarrow>
        KeyFrame_isBad st K
        \<or> mnId (kfs st K) \<noteq> 0
          \<and> 0.9 * real (length (filter (close_slot st K) (enumerate 0 (mvpMapPoints (kfs st K)))))
             < real (length (filter (\<lambda>e. close_slot st K e \<and> well_observed st K e)
                        (enumerate 0 (mvpMapPoints (kfs st K))))))"
proof -
  have "KeyFrame_isBad (KeyFrame_SetBadFlag K st) K"
    by (simp add: KeyFrame_isBad_def KeyFrame_SetBadFlag_kfs)
  then show ?thesis
    using KeyFrameCulling_slots_close[of st K i vp r n]
      KeyFrameCulling_slots_close[of st K 0 "mvpMapPoints (kfs st K)" 0 0]
      KeyFrameCulling_slots_without_far[of st K i vp "(r, n)"]
    by (simp add: KeyFrameCulling_keyframe_def GetMapPointMatches_def)
qed


text \<open>
  Key frame 7 of the example stores depth 0, which is not positive, for its only map
  point. The point is counted and redundant, and the key frame is culled; with the slot
  ignored nothing would be counted.
\<close>

theorem KeyFrameCulling_zero_depth_counterexample:
  "mvDepth (kfs redundancy_Store 7) ! 0 \<le> 0
   \<and> GetMapPointMatches redundancy_Store 7 = [Some 1]
   \<and> KeyFrameCulling_slots False redundancy_Store 7 0 [Some 1] (0, 0) = (1, 1)
   \<and> KeyFrameCulling_slots False redundancy_Store 7 0 [None] (0, 0) = (0, 0)
   \<and> \<not> KeyFrame_isBad redundancy_Store 7
   \<and> KeyFrame_isBad (KeyFrameCulling_keyframe False 7 redundancy_Store) 7"
  by (simp add: redundancy_Store_def blank_Store_def blank_KeyFrame_def blank_MapPoint_def
      observer_KeyFrame_def origin_KeyPoint_def MapPoint_isBad_def KeyFrame_isBad_def
      GetMapPointMatches_def Observations_def GetObservations_def KeyFrameCulling_keyframe_def
      KeyFrame_SetBadFlag_kfs)

section \<open>Properties of the loop of Run\<close>

lemma LocalBA_calls_serve: "LocalBA_calls (serve r s) = LocalBA_calls s"
proof -
  have "filter is_LocalBA (map Call_delete ks) = []" for ks
    by (induction ks) simp_all
  then show ?thesis
    by (cases r)
       (simp_all add: LocalBA_calls_def InsertKeyFrame_def RequestStop_def SetNotStop_def
          Release_def InterruptBA_def RequestReset_def RequestFinish_def)
qed

lemma LocalBA_calls_fold_serve: "LocalBA_calls (fold serve g s) = LocalBA_calls s"
  by (induction g arbitrary: s) (simp_all add: LocalBA_calls_serve)

lemma LocalBA_calls_sync [simp]: "LocalBA_calls (sync s) = LocalBA_calls s"
  by (cases "others s") (simp_all add: sync_def LocalBA_calls_fold_serve, simp add: LocalBA_calls_def)

lemma calls_ProcessNewKeyFrame_slots [simp]:
  "calls (ProcessNewKeyFrame_slots pKF i vp s) = calls s"
  by (induction pKF i vp s rule: ProcessNewKeyFrame_slots.induct) simp_all

lemma calls_ProcessNewKeyFrame [simp]: "calls (ProcessNewKeyFrame E s) = calls s"
  by (simp add: ProcessNewKeyFrame_def Let_def split: list.splits)

lemma calls_MapPointCulling [simp]: "calls (MapPointCulling s) = calls s"
  by (simp add: MapPointCulling_def Let_def split: prod.splits)

lemma LocalBA_calls_stages [simp]:
  "LocalBA_calls (ProcessNewKeyFrame E s) = LocalBA_calls s"
  "LocalBA_calls (MapPointCulling s) = LocalBA_calls s"
  by (simp_all add: LocalBA_calls_def)

lemma calls_register_MapPoint [simp]: "calls (register_MapPoint pKF2 idx1 idx2 s) = calls s"
  by (simp add: register_MapPoint_def Let_def split: prod.splits)

lemma calls_CreateNewMapPoints_matches [simp]:
  "calls (CreateNewMapPoints_matches E pKF2 ms s) = calls s"
  by (induction E pKF2 ms s rule: CreateNewMapPoints_matches.induct)
     (simp_all split: option.splits)

lemma CreateNewMapPoints_loop_Cons:
  "CreateNewMapPoints_loop E i (pKF2 # ks) s =
     (if i > 0 \<and> CheckNewKeyFrames (if i > 0 then sync s else s)
      then (if i > 0 then sync s else s)
      else if baseline_too_short E (mbMonocular (if i > 0 then sync s else s))
                (store (if i > 0 then sync s else s))
                (mpCurrentKeyFrame (if i > 0 then sync s else s)) pKF2
      then CreateNewMapPoints_loop E (Suc i) ks (if i > 0 then sync s else s)
      else CreateNewMapPoints_loop E (Suc i) ks
             (CreateNewMapPoints_matches E pKF2
                (SearchForTriangulation E (store (if i > 0 then sync s else s))
                   (mpCurrentKeyFrame (if i > 0 then sync s else s)) pKF2)
                ((if i > 0 then sync s else s)
                   \<lparr>calls := calls (if i > 0 then sync s else s)
                      @ [Call_SearchForTriangulation
                           (mpCurrentKeyFrame (if i > 0 then sync s else s)) pKF2]\<rparr>)))"
  by (simp only: CreateNewMapPoints_loop.simps Let_def)

lemma LocalBA_calls_CreateNewMapPoints_loop:
  "LocalBA_calls (CreateNewMapPoints_loop E i ks s) = LocalBA_calls s"
proof (induction ks arbitrary: i s)
  case Nil
  show ?case by simp
next
  case (Cons pKF2 ks)
  define s1 where "s1 = (if i > 0 then sync s else s)"
  have s1: "LocalBA_calls s1 = LocalBA_calls s" by (simp add: s1_def)
  have m: "LocalBA_calls (CreateNewMapPoints_matches E pKF2 ms
               (s1\<lparr>calls := calls s1 @ [Call_SearchForTriangulation k pKF2]\<rparr>))
            = LocalBA_calls s1" for ms k
    by (simp add: LocalBA_calls_def)
  show ?case
    unfolding CreateNewMapPoints_loop_Cons s1_def[symmetric]
    using s1 m Cons.IH by simp
qed

lemma LocalBA_calls_CreateNewMapPoints [simp]:
  "LocalBA_calls (CreateNewMapPoints E s) = LocalBA_calls s"
  by (simp add: CreateNewMapPoints_def Let_def LocalBA_calls_CreateNewMapPoints_loop)

lemma calls_SearchInNeighbors_forward:
  "calls (SearchInNeighbors_forward E vp ks s) = calls s @ map Call_Fuse ks"
  by (induction E vp ks s rule: SearchInNeighbors_forward.induct) simp_all

lemma calls_SearchInNeighbors:
  "calls (SearchInNeighbors E s) =
     calls s @ map Call_Fuse (snd (SearchInNeighbors_targets (mpCurrentKeyFrame s)
        (GetBestCovisibilityKeyFrames (store s) (mpCurrentKeyFrame s)
           (if mbMonocular s then 20 else 10)) (store s, [])))
     @ [Call_Fuse (mpCurrentKeyFrame s)]"
  by (simp add: SearchInNeighbors_def Let_def calls_SearchInNeighbors_forward split: prod.splits)

lemma LocalBA_calls_SearchInNeighbors [simp]:
  "LocalBA_calls (SearchInNeighbors E s) = LocalBA_calls s"
proof -
  have "filter is_LocalBA (map Call_Fuse ks) = []" for ks
    by (induction ks) simp_all
  then show ?thesis by (simp add: LocalBA_calls_def calls_SearchInNeighbors)
qed

lemma calls_KeyFrameCulling [simp]: "calls (KeyFrameCulling s) = calls s"
  by (simp add: KeyFrameCulling_def Let_def)

lemma LocalBA_calls_KeyFrameCulling [simp]:
  "LocalBA_calls (KeyFrameCulling s) = LocalBA_calls s"
  by (simp add: LocalBA_calls_def)

lemma LocalBA_calls_Run_handoff [simp]: "LocalBA_calls (Run_handoff s) = LocalBA_calls s"
  by (simp add: Run_handoff_def LocalBA_calls_def)

lemma LocalBA_calls_upd [simp]:
  "LocalBA_calls (s\<lparr>mbAbortBA := b\<rparr>) = LocalBA_calls s"
  "LocalBA_calls (s\<lparr>mbStopped := b\<rparr>) = LocalBA_calls s"
  "LocalBA_calls (SetAcceptKeyFrames b s) = LocalBA_calls s"
  "LocalBA_calls (ResetIfRequested s) = LocalBA_calls s"
  by (simp_all add: LocalBA_calls_def SetAcceptKeyFrames_def ResetIfRequested_def)

lemma LocalBA_calls_Run_end [simp]: "LocalBA_calls (fst (Run_end s)) = LocalBA_calls s"
  by (simp add: Run_end_def Let_def)

lemma LocalBA_calls_wait_while_stopped [simp]:
  "LocalBA_calls (fst (wait_while_stopped s)) = LocalBA_calls s"
proof (induction s rule: wait_while_stopped.induct)
  case (1 s)
  show ?case
  proof (cases "isStopped s \<and> \<not> CheckFinish s \<and> others s \<noteq> []")
    case True
    then show ?thesis using 1 by (subst wait_while_stopped.simps) simp
  next
    case False
    then show ?thesis by (subst wait_while_stopped.simps) auto
  qed
qed

lemma LocalBA_calls_Run_before_LocalBA [simp]:
  "LocalBA_calls (Run_before_LocalBA E s) = LocalBA_calls s"
  by (simp add: Run_before_LocalBA_def Let_def)

lemma LocalBA_calls_Run_LocalBA:
  "LocalBA_calls (Run_LocalBA E s) =
     LocalBA_calls s @
       (if \<not> CheckNewKeyFrames s \<and> \<not> stopRequested s \<and> KeyFramesInMap (store s) > 2
        then [Call_LocalBundleAdjustment (mpCurrentKeyFrame s)] else [])"
  by (simp add: Run_LocalBA_def) (simp add: LocalBA_calls_def)

lemma LocalBA_calls_idle:
  "LocalBA_calls (fst (case Stop s of
              (True, s1) \<Rightarrow>
                (case wait_while_stopped s1 of
                   (s2, False) \<Rightarrow> (s2, Spins)
                 | (s2, True) \<Rightarrow> if CheckFinish s2 then (s2, Break) else Run_end s2)
            | (False, s1) \<Rightarrow> Run_end s1)) = LocalBA_calls s"
proof (cases "mbStopRequested s \<and> \<not> mbNotStop s")
  case True
  obtain s2 fin where w: "wait_while_stopped (s\<lparr>mbStopped := True\<rparr>) = (s2, fin)"
    by (cases "wait_while_stopped (s\<lparr>mbStopped := True\<rparr>)")
  have "LocalBA_calls s2 = LocalBA_calls s"
    using LocalBA_calls_wait_while_stopped[of "s\<lparr>mbStopped := True\<rparr>"] by (simp add: w)
  then show ?thesis using True by (cases fin) (simp_all add: Stop_def w)
next
  case False
  then show ?thesis by (auto simp add: Stop_def)
qed

text \<open>
  C5, as the code has it. In one iteration of the loop of \<^verbatim>\<open>Run\<close> the optimizer
  is called, once and on the current key frame, exactly when the iteration found a key
  frame in the queue at its start and, when the guard of line 83 is reached, the queue is
  empty, no stop is requested and the map holds more than two key frames. An iteration
  that finds the queue empty at its start calls no local bundle adjustment, and neither
  does one whose map holds at most two key frames.
\<close>

theorem Run_iteration_LocalBA:
  "(let s = sync (SetAcceptKeyFrames False s0);
        g = Run_before_LocalBA E s
    in LocalBA_calls (fst (Run_iteration E s0)) =
         LocalBA_calls s0 @
           (if CheckNewKeyFrames s \<and> \<not> CheckNewKeyFrames g \<and> \<not> stopRequested g
               \<and> KeyFramesInMap (store g) > 2
            then [Call_LocalBundleAdjustment (mpCurrentKeyFrame g)] else [])
       \<and> (KeyFramesInMap (store g) \<le> 2 \<longrightarrow>
            LocalBA_calls (fst (Run_iteration E s0)) = LocalBA_calls s0))"
proof -
  define s where "s = sync (SetAcceptKeyFrames False s0)"
  define g where "g = Run_before_LocalBA E s"
  have s: "LocalBA_calls s = LocalBA_calls s0" by (simp add: s_def)
  have g: "LocalBA_calls g = LocalBA_calls s0" by (simp add: g_def s)
  have main: "LocalBA_calls (fst (Run_iteration E s0)) =
         LocalBA_calls s0 @
           (if CheckNewKeyFrames s \<and> \<not> CheckNewKeyFrames g \<and> \<not> stopRequested g
               \<and> KeyFramesInMap (store g) > 2
            then [Call_LocalBundleAdjustment (mpCurrentKeyFrame g)] else [])"
  proof (cases "CheckNewKeyFrames s")
    case True
    then have "Run_iteration E s0 = Run_end (Run_handoff (Run_LocalBA E g))"
      by (simp add: Run_iteration_def s_def g_def Let_def)
    then show ?thesis using True g by (simp add: LocalBA_calls_Run_LocalBA)
  next
    case False
    then have "Run_iteration E s0 =
        (case Stop (sync s) of
              (True, s1) \<Rightarrow>
                (case wait_while_stopped s1 of
                   (s2, False) \<Rightarrow> (s2, Spins)
                 | (s2, True) \<Rightarrow> if CheckFinish s2 then (s2, Break) else Run_end s2)
            | (False, s1) \<Rightarrow> Run_end s1)"
      by (simp add: Run_iteration_def s_def Let_def)
    then show ?thesis using False s LocalBA_calls_idle[of "sync s"] by simp
  qed
  then show ?thesis
    unfolding Let_def s_def[symmetric] g_def[symmetric] by auto
qed

lemmas example_defs =
  idle_example_def busy_example_def first_example_def redundancy_example_def
  redundancy_Store_def LocalMapping_init_def blank_Store_def blank_KeyFrame_def
  blank_MapPoint_def observer_KeyFrame_def origin_KeyPoint_def quiet_Collaborators_def

lemmas stage_defs =
  SetAcceptKeyFrames_def sync_def CheckNewKeyFrames_def stopRequested_def Stop_def
  ProcessNewKeyFrame_def GetMapPointMatches_def KeyFrame_UpdateConnections_def
  Map_AddKeyFrame_def MapPointCulling_def CreateNewMapPoints_def
  GetBestCovisibilityKeyFrames_def SearchInNeighbors_def KeyFramesInMap_def
  Run_before_LocalBA_def Run_LocalBA_def Run_handoff_def Run_end_def Run_iteration_def
  ResetIfRequested_def CheckFinish_def KeyFrameCulling_def GetVectorCovisibleKeyFrames_def

lemma first_example_guard:
  "KeyFramesInMap (store (Run_before_LocalBA quiet_Collaborators
      (sync (SetAcceptKeyFrames False first_example)))) = 1"
  by (simp add: example_defs stage_defs Let_def)

lemma first_example_run:
  "LocalBA_calls (fst (Run_iteration quiet_Collaborators first_example)) = []"
  by (simp add: example_defs stage_defs Let_def LocalBA_calls_def)

lemma busy_example_run:
  "LocalBA_calls (fst (Run_iteration quiet_Collaborators busy_example))
     = [Call_LocalBundleAdjustment 9]"
  by (simp add: example_defs stage_defs Let_def LocalBA_calls_def)

lemma idle_example_run:
  "Run_iteration quiet_Collaborators idle_example = (idle_example, Continue)"
  by (simp add: example_defs stage_defs Let_def)

theorem Run_iteration_LocalBA_witness:
  "KeyFramesInMap (store (Run_before_LocalBA quiet_Collaborators
      (sync (SetAcceptKeyFrames False first_example)))) \<le> 2
   \<and> LocalBA_calls (fst (Run_iteration quiet_Collaborators first_example))
       = LocalBA_calls first_example
   \<and> LocalBA_calls (fst (Run_iteration quiet_Collaborators busy_example))
       = [Call_LocalBundleAdjustment 9]"
  using Run_iteration_LocalBA [where E = quiet_Collaborators and ?s0.0 = first_example]
    Run_iteration_LocalBA [where E = quiet_Collaborators and ?s0.0 = busy_example]
    first_example_guard busy_example_run
  by (simp add: Let_def)

text \<open>
  An idle iteration: the queue is empty, no stop is requested and the map holds eight
  key frames, before the iteration and after it, and the optimizer is not called.
\<close>

theorem idle_iteration_counterexample:
  "\<not> CheckNewKeyFrames idle_example \<and> \<not> stopRequested idle_example
   \<and> KeyFramesInMap (store idle_example) = 8
   \<and> Run_iteration quiet_Collaborators idle_example = (idle_example, Continue)
   \<and> LocalBA_calls (fst (Run_iteration quiet_Collaborators idle_example))
       = LocalBA_calls idle_example"
  using idle_example_run
  by (simp add: example_defs CheckNewKeyFrames_def stopRequested_def KeyFramesInMap_def)

section \<open>Properties of the two passes\<close>


lemma SearchInNeighbors_forward_fields [simp]:
  "mlNewKeyFrames (SearchInNeighbors_forward E vp ks s) = mlNewKeyFrames s"
  "others (SearchInNeighbors_forward E vp ks s) = others s"
  "mpCurrentKeyFrame (SearchInNeighbors_forward E vp ks s) = mpCurrentKeyFrame s"
  by (induction E vp ks s rule: SearchInNeighbors_forward.induct) simp_all




lemma Fuse_calls_serve: "Fuse_calls (serve r s) = Fuse_calls s"
proof -
  have "filter is_Fuse (map Call_delete ks) = []" for ks
    by (induction ks) simp_all
  then show ?thesis
    by (cases r)
       (simp_all add: Fuse_calls_def InsertKeyFrame_def RequestStop_def SetNotStop_def
          Release_def InterruptBA_def RequestReset_def RequestFinish_def)
qed

lemma Fuse_calls_fold_serve: "Fuse_calls (fold serve g s) = Fuse_calls s"
  by (induction g arbitrary: s) (simp_all add: Fuse_calls_serve)

lemma Fuse_calls_sync [simp]: "Fuse_calls (sync s) = Fuse_calls s"
  by (cases "others s") (simp_all add: sync_def Fuse_calls_fold_serve, simp add: Fuse_calls_def)

lemma Fuse_calls_stages [simp]:
  "Fuse_calls (ProcessNewKeyFrame E s) = Fuse_calls s"
  "Fuse_calls (MapPointCulling s) = Fuse_calls s"
  "Fuse_calls (s\<lparr>mbAbortBA := b\<rparr>) = Fuse_calls s"
  by (simp_all add: Fuse_calls_def)

lemma Fuse_calls_CreateNewMapPoints_loop:
  "Fuse_calls (CreateNewMapPoints_loop E i ks s) = Fuse_calls s"
proof (induction ks arbitrary: i s)
  case Nil
  show ?case by simp
next
  case (Cons pKF2 ks)
  define s1 where "s1 = (if i > 0 then sync s else s)"
  have s1: "Fuse_calls s1 = Fuse_calls s" by (simp add: s1_def)
  have m: "Fuse_calls (CreateNewMapPoints_matches E pKF2 ms
               (s1\<lparr>calls := calls s1 @ [Call_SearchForTriangulation k pKF2]\<rparr>))
            = Fuse_calls s1" for ms k
    by (simp add: Fuse_calls_def)
  show ?case
    unfolding CreateNewMapPoints_loop_Cons s1_def[symmetric]
    using s1 m Cons.IH by simp
qed

lemma Fuse_calls_CreateNewMapPoints [simp]:
  "Fuse_calls (CreateNewMapPoints E s) = Fuse_calls s"
  by (simp add: CreateNewMapPoints_def Let_def Fuse_calls_CreateNewMapPoints_loop)







section \<open>Observation symmetry\<close>


end
